theory Spec2Isabelle
  imports Complex_Main "HOL-Library.Stream"
begin

section \<open>Data model of \<open>menstrual_cycle_app.py\<close>\<close>

text \<open>
  Python \<open>float\<close> columns and values are modelled by \<^typ>\<open>real\<close>: the arithmetic below is
  the arithmetic of the source with rounding left out, except for the boost that
  \<open>choose_action\<close> adds before it compares, where rounding decides which action wins and
  the addition is the one of IEEE doubles (\<open>float_add\<close>). Python \<open>int\<close> is \<^typ>\<open>int\<close>,
  \<open>str\<close> is \<^typ>\<open>string\<close> (code points below 256).

  A \<open>datetime\<close> is the number of microseconds since a fixed local midnight, which gives
  both the order used by \<open>order_by(CycleData.timestamp.desc())\<close> and the \<open>.hour\<close> attribute.
\<close>

type_synonym datetime = nat

definition hour :: "datetime \<Rightarrow> nat" where
  "hour t = (t div 3600000000) mod 24"

subsection \<open>Database rows (the SQLAlchemy models)\<close>

record CycleData =
  cd_id :: int
  cd_user_id :: string
  cd_timestamp :: datetime
  cd_cycle_phase :: string
  cd_sleep_score :: int
  cd_mood_score :: int
  cd_stress_level :: int
  cd_pain_level :: int
  cd_energy_level :: int

record QTable =
  qt_id :: int
  qt_user_id :: string
  qt_state :: string
  qt_action :: string
  qt_q_value :: real

record QTableHistory =
  qh_id :: int
  qh_user_id :: string
  qh_state :: string
  qh_action :: string
  qh_q_value :: real
  qh_timestamp :: datetime
  qh_action_taken :: int
  qh_reward :: real
  qh_next_day_energy :: "int option"
  qh_next_day_mood :: "int option"

record Notification =
  nt_id :: int
  nt_user_id :: string
  nt_message :: string
  nt_timestamp :: datetime
  nt_action :: string
  nt_state :: string
  nt_action_taken :: int
  nt_effectiveness :: real

subsection \<open>Request and response bodies (the pydantic models)\<close>

record NotificationResponse =
  nr_notification_id :: int
  nr_user_id :: string
  nr_message :: string
  nr_action :: string

record NotificationFeedback =
  fb_notification_id :: int
  fb_action_taken :: int
  fb_effectiveness :: real
  fb_next_day_energy :: int
  fb_next_day_mood :: int

record FeedbackResponse =
  fr_status :: string
  fr_reward :: real

subsection \<open>The random number generator\<close>

text \<open>
  \<open>random.random()\<close> returns a float in the half-open interval from 0 to 1. The process-wide
  generator is modelled by the stream of the samples it is going to return.
\<close>

typedef unit_sample = "{x::real. 0 \<le> x \<and> x < 1}"
  morphisms sample_value Abs_unit_sample
  by (rule exI [of _ 0]) simp

setup_lifting type_definition_unit_sample

lift_definition sample_of :: "real \<Rightarrow> unit_sample"
  is "\<lambda>x. if 0 \<le> x \<and> x < 1 then x else 0"
  by simp

subsection \<open>The world: the four tables and the generator\<close>

text \<open>
  Each table is the list of its rows in insertion order. The session is created with
  \<open>autoflush=False\<close>, but every query of the modelled functions that follows a pending
  write on the same table is preceded by a \<open>commit\<close>, so a request that raises nothing
  leaves the tables as if each write had been applied at once. The feedback endpoint says
  what a commit that raises leaves behind.
\<close>

record world =
  tbl_cycle_data :: "CycleData list"
  tbl_q_tables :: "QTable list"
  tbl_q_table_history :: "QTableHistory list"
  tbl_notifications :: "Notification list"
  rng :: "unit_sample stream"

datatype error =
    HTTPException nat string
  | JSONDecodeError
  | TypeError
  | IndexError
  | ValueError
  | OverflowError

text \<open>A new row gets the integer primary key SQLite assigns: one more than the largest.\<close>

definition next_id :: "int list \<Rightarrow> int" where
  "next_id ids = (case ids of [] \<Rightarrow> 1 | i # rest \<Rightarrow> fold max rest i + 1)"

definition random_random :: "world \<Rightarrow> real \<times> world" where
  "random_random w = (sample_value (shd (rng w)), w\<lparr>rng := stl (rng w)\<rparr>)"

definition random_uniform :: "real \<Rightarrow> real \<Rightarrow> world \<Rightarrow> real \<times> world" where
  "random_uniform a b w = (case random_random w of (u, w') \<Rightarrow> (a + (b - a) * u, w'))"

text \<open>
  \<open>random.choice(seq)\<close> raises \<open>IndexError\<close> on an empty sequence and otherwise returns
  the element at a uniformly drawn index; the index is taken from the next sample.
\<close>

definition random_choice :: "'a list \<Rightarrow> world \<Rightarrow> (error + 'a) \<times> world" where
  "random_choice seq w =
     (if seq = [] then (Inl IndexError, w)
      else case random_random w of
             (u, w') \<Rightarrow> (Inr (seq ! nat \<lfloor>u * real (length seq)\<rfloor>), w'))"

section \<open>The environment\<close>

record MenstrualCycleEnvironment =
  env_user_id :: string
  env_state_features :: "string list"
  env_actions :: "string list"

definition new_environment :: "string \<Rightarrow> MenstrualCycleEnvironment" where
  "new_environment uid =
     \<lparr> env_user_id = uid,
       env_state_features = [''cycle_phase'', ''sleep_score'', ''mood_score'',
                             ''stress_level'', ''pain_level'', ''time_of_day'', ''energy_level''],
       env_actions = [''stretch_prompt'', ''mindfulness'', ''magnesium_suggestion'',
                      ''nap_suggestion'', ''healthy_snack'', ''movement_break''] \<rparr>"

text \<open>
  \<open>db.query(CycleData).filter_by(user_id=...).order_by(CycleData.timestamp.desc()).first()\<close>:
  the row of the user with the greatest timestamp, the earliest inserted one among equals.
\<close>

fun latest_row :: "CycleData list \<Rightarrow> CycleData option" where
  "latest_row [] = None"
| "latest_row (r # rs) =
     (case latest_row rs of
        None \<Rightarrow> Some r
      | Some m \<Rightarrow> if cd_timestamp r < cd_timestamp m then Some m else Some r)"

definition latest_cycle_data :: "world \<Rightarrow> string \<Rightarrow> CycleData option" where
  "latest_cycle_data w uid = latest_row (filter (\<lambda>r. cd_user_id r = uid) (tbl_cycle_data w))"

definition reward_function ::
  "MenstrualCycleEnvironment \<Rightarrow> world \<Rightarrow> NotificationFeedback \<Rightarrow> real" where
  "reward_function env w notification_feedback =
     (let action_taken = fb_action_taken notification_feedback;
          effectiveness = fb_effectiveness notification_feedback;
          next_day_energy = fb_next_day_energy notification_feedback;
          next_day_mood = fb_next_day_mood notification_feedback
      in if action_taken = 0 then - 1
         else
           let immediate_reward = effectiveness - 5;
               improvement_reward =
                 (case latest_cycle_data w (env_user_id env) of
                    Some prev_data \<Rightarrow>
                      let energy_improvement = next_day_energy - cd_energy_level prev_data;
                          mood_improvement = next_day_mood - cd_mood_score prev_data
                      in real_of_int (energy_improvement + mood_improvement) / 2
                  | None \<Rightarrow> 0)
           in immediate_reward + improvement_reward)"


section \<open>JSON text of a state\<close>

text \<open>
  The values the state dictionaries hold: strings, integers and \<open>None\<close>. A dictionary is
  the list of its items in insertion order.
\<close>

datatype json = JNull | JInt int | JStr string

definition dq :: char where
  "dq = CHR 0x22"

definition bs :: char where
  "bs = CHR 0x5C"

subsection \<open>\<open>json.dumps\<close>\<close>

definition hex_digit :: "nat \<Rightarrow> char" where
  "hex_digit d = ''0123456789abcdef'' ! (d mod 16)"

text \<open>
  The escapes of \<open>json.dumps\<close> with its default \<open>ensure_ascii=True\<close>: the quote, the
  backslash, the five short escapes, and \<open>\uXXXX\<close> for everything outside the range from
  space to tilde.
\<close>

definition encode_char :: "char \<Rightarrow> string" where
  "encode_char c =
     (let n = (of_char c :: nat)
      in if c = dq then [bs, dq]
         else if c = bs then [bs, bs]
         else if n = 10 then [bs, CHR ''n'']
         else if n = 13 then [bs, CHR ''r'']
         else if n = 9 then [bs, CHR ''t'']
         else if n = 12 then [bs, CHR ''f'']
         else if n = 8 then [bs, CHR ''b'']
         else if 32 \<le> n \<and> n \<le> 126 then [c]
         else [bs, CHR ''u'', CHR ''0'', CHR ''0'', hex_digit (n div 16), hex_digit (n mod 16)])"

definition json_quote :: "string \<Rightarrow> string" where
  "json_quote s = [dq] @ concat (map encode_char s) @ [dq]"

fun show_nat :: "nat \<Rightarrow> string" where
  "show_nat n =
     (if n < 10 then [''0123456789'' ! n]
      else show_nat (n div 10) @ [''0123456789'' ! (n mod 10)])"

declare show_nat.simps [simp del]

definition show_int :: "int \<Rightarrow> string" where
  "show_int i = (if i < 0 then CHR ''-'' # show_nat (nat (- i)) else show_nat (nat i))"

fun json_dumps_value :: "json \<Rightarrow> string" where
  "json_dumps_value JNull = ''null''"
| "json_dumps_value (JInt i) = show_int i"
| "json_dumps_value (JStr s) = json_quote s"

fun join :: "string \<Rightarrow> string list \<Rightarrow> string" where
  "join sep [] = []"
| "join sep [x] = x"
| "join sep (x # y # ys) = x @ sep @ join sep (y # ys)"

definition json_dumps :: "(string \<times> json) list \<Rightarrow> string" where
  "json_dumps d =
     ''{'' @ join '', '' (map (\<lambda>(k, v). json_quote k @ '': '' @ json_dumps_value v) d) @ ''}''"

subsection \<open>\<open>json.loads\<close>\<close>

text \<open>
  The decoder covers the texts \<open>json_dumps\<close> writes and every other JSON object whose
  values are strings, integers or \<open>null\<close>; text that is not JSON raises
  \<open>JSONDecodeError\<close> as in Python. Floats, booleans, nested values, top-level values
  other than an object and escapes of code points from 256 on are outside the model and are
  reported as \<open>None\<close> too.

  The text is cut into tokens one character at a time, and the tokens are read as an object.
\<close>

datatype token = TLBrace | TRBrace | TColon | TComma | TStr string | TInt int | TNull

datatype lex_mode =
    Plain
  | InStr string
  | InEsc string
  | InHex string "nat list"
  | InNum string
  | InNull nat

definition is_ws :: "char \<Rightarrow> bool" where
  "is_ws c = (c = CHR '' '' \<or> c = CHR 0x09 \<or> c = CHR 0x0A \<or> c = CHR 0x0D)"

definition is_digit :: "char \<Rightarrow> bool" where
  "is_digit c = (48 \<le> (of_char c :: nat) \<and> (of_char c :: nat) \<le> 57)"

definition digit_val :: "char \<Rightarrow> nat" where
  "digit_val c = (of_char c :: nat) - 48"

definition hex_val :: "char \<Rightarrow> nat option" where
  "hex_val c =
     (let n = (of_char c :: nat)
      in if 48 \<le> n \<and> n \<le> 57 then Some (n - 48)
         else if 97 \<le> n \<and> n \<le> 102 then Some (n - 87)
         else if 65 \<le> n \<and> n \<le> 70 then Some (n - 55)
         else None)"

definition unescape :: "char \<Rightarrow> char option" where
  "unescape c =
     (if c = dq then Some dq
      else if c = bs then Some bs
      else if c = CHR ''/'' then Some CHR ''/''
      else if c = CHR ''b'' then Some (CHR 0x08)
      else if c = CHR ''f'' then Some (CHR 0x0C)
      else if c = CHR ''n'' then Some (CHR 0x0A)
      else if c = CHR ''r'' then Some (CHR 0x0D)
      else if c = CHR ''t'' then Some (CHR 0x09)
      else None)"

text \<open>
  The integer a run of characters denotes: an optional minus sign, then \<open>0\<close> alone or digits
  that do not start with \<open>0\<close>.
\<close>

definition number_token :: "string \<Rightarrow> token option" where
  "number_token ds =
     (let neg = (ds \<noteq> [] \<and> hd ds = CHR ''-'');
          body = (if neg then tl ds else ds);
          n = fold (\<lambda>c acc. 10 * acc + digit_val c) body 0
      in if body = [] then None
         else if \<not> list_all is_digit body then None
         else if 1 < length body \<and> hd body = CHR ''0'' then None
         else Some (TInt (if neg then - int n else int n)))"

definition step_plain :: "char \<Rightarrow> (token list \<times> lex_mode) option" where
  "step_plain c =
     (if is_ws c then Some ([], Plain)
      else if c = CHR ''{'' then Some ([TLBrace], Plain)
      else if c = CHR ''}'' then Some ([TRBrace], Plain)
      else if c = CHR '':'' then Some ([TColon], Plain)
      else if c = CHR '','' then Some ([TComma], Plain)
      else if c = dq then Some ([], InStr [])
      else if c = CHR ''-'' \<or> is_digit c then Some ([], InNum [c])
      else if c = CHR ''n'' then Some ([], InNull 1)
      else None)"

fun step :: "lex_mode \<Rightarrow> char \<Rightarrow> (token list \<times> lex_mode) option" where
  "step Plain c = step_plain c"
| "step (InStr acc) c =
     (if c = dq then Some ([TStr (rev acc)], Plain)
      else if c = bs then Some ([], InEsc acc)
      else if (of_char c :: nat) < 32 then None
      else Some ([], InStr (c # acc)))"
| "step (InEsc acc) c =
     (if c = CHR ''u'' then Some ([], InHex acc [])
      else case unescape c of
             None \<Rightarrow> None
           | Some ch \<Rightarrow> Some ([], InStr (ch # acc)))"
| "step (InHex acc hs) c =
     (case hex_val c of
        None \<Rightarrow> None
      | Some h \<Rightarrow>
          if length hs < 3 then Some ([], InHex acc (hs @ [h]))
          else
            let n = fold (\<lambda>d a. 16 * a + d) (hs @ [h]) 0
            in if n < 256 then Some ([], InStr (char_of n # acc)) else None)"
| "step (InNum ds) c =
     (if is_digit c then Some ([], InNum (ds @ [c]))
      else case number_token ds of
             None \<Rightarrow> None
           | Some t \<Rightarrow>
               (case step_plain c of
                  None \<Rightarrow> None
                | Some (toks, m) \<Rightarrow> Some (t # toks, m)))"
| "step (InNull k) c =
     (if k < 4 \<and> c = ''null'' ! k
      then (if k = 3 then Some ([TNull], Plain) else Some ([], InNull (Suc k)))
      else None)"

fun finish :: "lex_mode \<Rightarrow> token list option" where
  "finish Plain = Some []"
| "finish (InNum ds) = map_option (\<lambda>t. [t]) (number_token ds)"
| "finish _ = None"

fun lex :: "lex_mode \<Rightarrow> string \<Rightarrow> token list option" where
  "lex m [] = finish m"
| "lex m (c # cs) =
     (case step m c of
        None \<Rightarrow> None
      | Some (toks, m') \<Rightarrow> map_option ((@) toks) (lex m' cs))"

fun token_value :: "token \<Rightarrow> json option" where
  "token_value (TStr s) = Some (JStr s)"
| "token_value (TInt i) = Some (JInt i)"
| "token_value TNull = Some JNull"
| "token_value _ = None"

fun parse_members :: "token list \<Rightarrow> (string \<times> json) list option" where
  "parse_members (k # c # v # s # rest) =
     (case (k, c, token_value v) of
        (TStr key, TColon, Some j) \<Rightarrow>
          if s = TRBrace \<and> rest = [] then Some [(key, j)]
          else if s = TComma then map_option ((#) (key, j)) (parse_members rest)
          else None
      | _ \<Rightarrow> None)"
| "parse_members _ = None"

definition json_loads :: "string \<Rightarrow> (string \<times> json) list option" where
  "json_loads s =
     (case lex Plain s of
        Some (TLBrace # ts) \<Rightarrow> if ts = [TRBrace] then Some [] else parse_members ts
      | _ \<Rightarrow> None)"

text \<open>
  \<open>d.get(key, default)\<close> on the decoded dictionary: a repeated key keeps its last value.
\<close>

definition dict_get :: "(string \<times> json) list \<Rightarrow> string \<Rightarrow> json \<Rightarrow> json" where
  "dict_get d key dflt = (case map_of (rev d) key of Some v \<Rightarrow> v | None \<Rightarrow> dflt)"

text \<open>\<open>str(v)\<close>, as an f-string formats a value.\<close>

definition py_str :: "json \<Rightarrow> string" where
  "py_str v = (case v of JNull \<Rightarrow> ''None'' | JInt i \<Rightarrow> show_int i | JStr s \<Rightarrow> s)"

text \<open>\<open>v >= n\<close> and \<open>v <= n\<close> for an integer \<open>n\<close>: a \<open>TypeError\<close> unless \<open>v\<close> is a number.\<close>

definition py_ge :: "json \<Rightarrow> int \<Rightarrow> error + bool" where
  "py_ge v n = (case v of JInt i \<Rightarrow> Inr (n \<le> i) | _ \<Rightarrow> Inl TypeError)"

definition py_le :: "json \<Rightarrow> int \<Rightarrow> error + bool" where
  "py_le v n = (case v of JInt i \<Rightarrow> Inr (i \<le> n) | _ \<Rightarrow> Inl TypeError)"

definition get_current_state ::
  "MenstrualCycleEnvironment \<Rightarrow> datetime \<Rightarrow> world \<Rightarrow> string option" where
  "get_current_state env now w =
     (case latest_cycle_data w (env_user_id env) of
        None \<Rightarrow> None
      | Some cycle_data \<Rightarrow>
          let current_hour = hour now;
              time_of_day =
                (if 5 \<le> current_hour \<and> current_hour < 12 then ''morning''
                 else if 12 \<le> current_hour \<and> current_hour < 17 then ''afternoon''
                 else if 17 \<le> current_hour \<and> current_hour < 22 then ''evening''
                 else ''night'');
              state =
                [(''cycle_phase'', JStr (cd_cycle_phase cycle_data)),
                 (''sleep_score'', JInt (cd_sleep_score cycle_data)),
                 (''mood_score'', JInt (cd_mood_score cycle_data)),
                 (''stress_level'', JInt (cd_stress_level cycle_data)),
                 (''pain_level'', JInt (cd_pain_level cycle_data)),
                 (''time_of_day'', JStr time_of_day),
                 (''energy_level'', JInt (cd_energy_level cycle_data))]
          in Some (json_dumps state))"


section \<open>The Q-learning agent\<close>

record MenstrualCycleQLearningAgent =
  ag_user_id :: string
  ag_actions :: "string list"
  ag_alpha :: real
  ag_gamma :: real
  ag_epsilon :: real

text \<open>The constructor with its default learning rate, discount factor and exploration rate.\<close>

definition new_agent :: "string \<Rightarrow> string list \<Rightarrow> MenstrualCycleQLearningAgent" where
  "new_agent uid actions =
     \<lparr> ag_user_id = uid, ag_actions = actions,
       ag_alpha = 0.1, ag_gamma = 0.9, ag_epsilon = 0.1 \<rparr>"

text \<open>\<open>db.query(QTable).filter_by(user_id=..., state=..., action=...).first()\<close>\<close>

definition q_filter :: "string \<Rightarrow> string \<Rightarrow> string \<Rightarrow> QTable \<Rightarrow> bool" where
  "q_filter uid state act r = (qt_user_id r = uid \<and> qt_state r = state \<and> qt_action r = act)"

definition query_q_entry :: "world \<Rightarrow> string \<Rightarrow> string \<Rightarrow> string \<Rightarrow> QTable option" where
  "query_q_entry w uid state act = find (q_filter uid state act) (tbl_q_tables w)"

definition add_q_entry :: "string \<Rightarrow> string \<Rightarrow> string \<Rightarrow> real \<Rightarrow> world \<Rightarrow> world" where
  "add_q_entry uid state act q w =
     w\<lparr>tbl_q_tables := tbl_q_tables w @
          [\<lparr> qt_id = next_id (map qt_id (tbl_q_tables w)), qt_user_id = uid,
             qt_state = state, qt_action = act, qt_q_value = q \<rparr>]\<rparr>"

definition get_q_value ::
  "MenstrualCycleQLearningAgent \<Rightarrow> string \<Rightarrow> string \<Rightarrow> world \<Rightarrow> real \<times> world" where
  "get_q_value ag state act w =
     (case query_q_entry w (ag_user_id ag) state act of
        Some q_entry \<Rightarrow> (qt_q_value q_entry, w)
      | None \<Rightarrow>
          (case random_uniform (- 0.1) 0.1 w of
             (new_q, w') \<Rightarrow> (new_q, add_q_entry (ag_user_id ag) state act new_q w')))"

text \<open>The comprehension \<open>[self.get_q_value(state, a) for a in actions]\<close>.\<close>

fun get_q_values ::
  "MenstrualCycleQLearningAgent \<Rightarrow> string \<Rightarrow> string list \<Rightarrow> world \<Rightarrow> real list \<times> world" where
  "get_q_values ag state [] w = ([], w)"
| "get_q_values ag state (a # rest) w =
     (case get_q_value ag state a w of
        (q, w1) \<Rightarrow>
          (case get_q_values ag state rest w1 of
             (qs, w2) \<Rightarrow> (q # qs, w2)))"

text \<open>Assignment to an attribute of the first row a query returns.\<close>

fun update_first :: "('a \<Rightarrow> bool) \<Rightarrow> ('a \<Rightarrow> 'a) \<Rightarrow> 'a list \<Rightarrow> 'a list" where
  "update_first P f [] = []"
| "update_first P f (x # xs) = (if P x then f x # xs else x # update_first P f xs)"

definition update_q_value ::
  "MenstrualCycleQLearningAgent \<Rightarrow> string \<Rightarrow> string \<Rightarrow> real \<Rightarrow> string \<Rightarrow> int \<Rightarrow> real \<Rightarrow>
     int option \<Rightarrow> int option \<Rightarrow> datetime \<Rightarrow> world \<Rightarrow> (error + unit) \<times> world" where
  "update_q_value ag state act rew next_state action_taken effectiveness
       next_day_energy next_day_mood now w =
     (case get_q_value ag state act w of
        (current_q, w1) \<Rightarrow>
          (case get_q_values ag next_state (ag_actions ag) w1 of
             ([], w2) \<Rightarrow> (Inl ValueError, w2)
           | (q # qs, w2) \<Rightarrow>
               let max_next_q = fold max qs q;
                   new_q = current_q + ag_alpha ag * (rew + ag_gamma ag * max_next_q - current_q);
                   w3 = (case query_q_entry w2 (ag_user_id ag) state act of
                           Some q_entry \<Rightarrow>
                             w2\<lparr>tbl_q_tables :=
                                  update_first (q_filter (ag_user_id ag) state act)
                                    (\<lambda>r. r\<lparr>qt_q_value := new_q\<rparr>) (tbl_q_tables w2)\<rparr>
                         | None \<Rightarrow> add_q_entry (ag_user_id ag) state act new_q w2);
                   history_entry =
                     \<lparr> qh_id = next_id (map qh_id (tbl_q_table_history w3)),
                       qh_user_id = ag_user_id ag, qh_state = state, qh_action = act,
                       qh_q_value = new_q, qh_timestamp = now,
                       qh_action_taken = action_taken, qh_reward = rew,
                       qh_next_day_energy = next_day_energy,
                       qh_next_day_mood = next_day_mood \<rparr>
               in (Inr (), w3\<lparr>tbl_q_table_history := tbl_q_table_history w3 @ [history_entry]\<rparr>)))"

text \<open>
  \<open>max(items, key=...)\<close> on a non-empty list: the item kept is replaced only by a later one
  whose key is strictly greater.
\<close>

fun max_by_key :: "('a \<Rightarrow> real) \<Rightarrow> 'a \<Rightarrow> 'a list \<Rightarrow> 'a" where
  "max_by_key key best [] = best"
| "max_by_key key best (x # xs) = max_by_key key (if key best < key x then x else best) xs"

definition py_max_key :: "('a \<Rightarrow> real) \<Rightarrow> 'a list \<Rightarrow> error + 'a" where
  "py_max_key key items = (case items of [] \<Rightarrow> Inl ValueError | x # xs \<Rightarrow> Inr (max_by_key key x xs))"

text \<open>\<open>cycle_phase == "menstrual" and pain_level >= 6\<close>, the second operand read only after the first.\<close>

definition high_pain_menstrual :: "json \<Rightarrow> json \<Rightarrow> error + bool" where
  "high_pain_menstrual cycle_phase pain_level =
     (if cycle_phase = JStr ''menstrual'' then py_ge pain_level 6 else Inr False)"

subsection \<open>Addition of doubles\<close>

text \<open>
  The binary exponent of a positive real as a double has it: the \<open>e\<close> with
  \<open>2 ^ e \<le> a < 2 ^ (e + 1)\<close>, not below \<open>-1022\<close> (the subnormal range) and not above 1023.
\<close>

function exponent_up :: "real \<Rightarrow> nat \<Rightarrow> nat" where
  "exponent_up a k = (if 1023 \<le> k \<or> a < 2 ^ (k + 1) then k else exponent_up a (k + 1))"
  by pat_completeness auto
termination
  by (relation "measure (\<lambda>(a, k). 1023 - k)") auto

function exponent_down :: "real \<Rightarrow> nat \<Rightarrow> nat" where
  "exponent_down a j = (if 1022 \<le> j \<or> 1 \<le> a * 2 ^ j then j else exponent_down a (j + 1))"
  by pat_completeness auto
termination
  by (relation "measure (\<lambda>(a, j). 1022 - j)") auto

declare exponent_up.simps [simp del]

declare exponent_down.simps [simp del]

definition double_exponent :: "real \<Rightarrow> int" where
  "double_exponent a = (if 1 \<le> a then int (exponent_up a 0) else - int (exponent_down a 1))"

text \<open>Rounding to the nearest integer, a tie to the even one.\<close>

definition round_half_even :: "real \<Rightarrow> int" where
  "round_half_even y =
     (let f = \<lfloor>y\<rfloor>; d = y - real_of_int f
      in if d < 1 / 2 then f
         else if 1 / 2 < d then f + 1
         else if even f then f else f + 1)"

text \<open>
  The double nearest to a real: the multiple of \<open>2 ^ (e - 52)\<close> nearest to it, a tie to the
  even multiple. Results of magnitude \<open>2 ^ 1024\<close> and more, which are infinite doubles, do
  not arise from the sum of a finite double and 0.5.
\<close>

definition double_round :: "real \<Rightarrow> real" where
  "double_round x =
     (if x = 0 then 0
      else let e = double_exponent \<bar>x\<bar>
           in if e \<le> 52
              then real_of_int (round_half_even (x * 2 ^ nat (52 - e))) / 2 ^ nat (52 - e)
              else real_of_int (round_half_even (x / 2 ^ nat (e - 52))) * 2 ^ nat (e - 52))"

text \<open>\<open>x + y\<close> on two doubles: the double nearest to the exact sum.\<close>

definition float_add :: "real \<Rightarrow> real \<Rightarrow> real" where
  "float_add x y = double_round (x + y)"

text \<open>
  The loop of the exploit branch that reads each value and boosts the two pain management
  actions with \<open>q_value += 0.5\<close>. The other exploit branch pairs each action with its value
  as read, which is \<open>zip\<close> of the actions and \<open>get_q_values\<close>.
\<close>

fun boosted_q_values ::
  "MenstrualCycleQLearningAgent \<Rightarrow> string \<Rightarrow> string list \<Rightarrow> world \<Rightarrow>
     (string \<times> real) list \<times> world" where
  "boosted_q_values ag state [] w = ([], w)"
| "boosted_q_values ag state (a # rest) w =
     (case get_q_value ag state a w of
        (q_value, w1) \<Rightarrow>
          let q_value' = (if a \<in> set [''magnesium_suggestion'', ''stretch_prompt'']
                          then float_add q_value 0.5 else q_value)
          in (case boosted_q_values ag state rest w1 of
                (q_values, w2) \<Rightarrow> ((a, q_value') # q_values, w2)))"

definition choose_action ::
  "MenstrualCycleQLearningAgent \<Rightarrow> string \<Rightarrow> world \<Rightarrow> (error + string) \<times> world" where
  "choose_action ag state w =
     (case json_loads state of
        None \<Rightarrow> (Inl JSONDecodeError, w)
      | Some state_dict \<Rightarrow>
          let cycle_phase = dict_get state_dict ''cycle_phase'' JNull;
              pain_level = dict_get state_dict ''pain_level'' (JInt 5)
          in (case random_random w of
                (u, w1) \<Rightarrow>
                  if u < ag_epsilon ag then
                    (case high_pain_menstrual cycle_phase pain_level of
                       Inl e \<Rightarrow> (Inl e, w1)
                     | Inr True \<Rightarrow>
                         (case random_random w1 of
                            (v, w2) \<Rightarrow>
                              if v < 0.6
                              then random_choice [''magnesium_suggestion'', ''stretch_prompt''] w2
                              else random_choice (ag_actions ag) w2)
                     | Inr False \<Rightarrow> random_choice (ag_actions ag) w1)
                  else
                    (case high_pain_menstrual cycle_phase pain_level of
                       Inl e \<Rightarrow> (Inl e, w1)
                     | Inr True \<Rightarrow>
                         (case boosted_q_values ag state (ag_actions ag) w1 of
                            (q_values, w2) \<Rightarrow> (map_sum id fst (py_max_key snd q_values), w2))
                     | Inr False \<Rightarrow>
                         (case get_q_values ag state (ag_actions ag) w1 of
                            (qs, w2) \<Rightarrow>
                              (map_sum id fst (py_max_key snd (zip (ag_actions ag) qs)), w2)))))"


section \<open>Notification text\<close>

definition get_stretch_type :: "json \<Rightarrow> string" where
  "get_stretch_type cycle_phase =
     (case cycle_phase of
        JStr p \<Rightarrow>
          (case map_of [(''menstrual'', ''hip-opening and gentle yoga''),
                        (''follicular'', ''dynamic stretches and flow movements''),
                        (''ovulation'', ''energetic and full-range stretches''),
                        (''luteal'', ''calming and restorative stretches'')] p of
             Some t \<Rightarrow> t
           | None \<Rightarrow> ''comfortable stretches'')
      | _ \<Rightarrow> ''comfortable stretches'')"

definition get_snack_suggestion :: "json \<Rightarrow> string" where
  "get_snack_suggestion cycle_phase =
     (case cycle_phase of
        JStr p \<Rightarrow>
          (case map_of [(''menstrual'', ''iron-rich foods and dark chocolate''),
                        (''follicular'', ''light, nutrient-dense foods''),
                        (''ovulation'', ''fresh fruits and vegetables''),
                        (''luteal'', ''complex carbs and protein-rich foods'')] p of
             Some t \<Rightarrow> t
           | None \<Rightarrow> ''balanced, nutritious foods'')
      | _ \<Rightarrow> ''balanced, nutritious foods'')"

definition get_movement_type :: "json \<Rightarrow> string" where
  "get_movement_type cycle_phase =
     (case cycle_phase of
        JStr p \<Rightarrow>
          (case map_of [(''menstrual'', ''gentle walking or stretching''),
                        (''follicular'', ''moderate cardio or strength training''),
                        (''ovulation'', ''high-intensity activities or dance''),
                        (''luteal'', ''yoga or light cardio'')] p of
             Some t \<Rightarrow> t
           | None \<Rightarrow> ''movement that feels good'')
      | _ \<Rightarrow> ''movement that feels good'')"

definition messages :: "json \<Rightarrow> (string \<times> string list) list" where
  "messages cycle_phase =
     (let ph = py_str cycle_phase in
      [(''stretch_prompt'',
          [''Time for some gentle stretching! During '' @ ph @ '' phase, focus on ''
             @ get_stretch_type cycle_phase,
           ''Your body could use some movement. Try these '' @ ph @ ''-friendly stretches'',
           ''Quick stretch break! Listen to your body and move gently'']),
       (''mindfulness'',
          [''Take a moment to check in with yourself. During '' @ ph
             @ '', practice deep breathing'',
           ''Time for a mindful moment. Close your eyes and breathe deeply'',
           ''Pause for peace. A short meditation can help balance your energy'']),
       (''magnesium_suggestion'',
          [''During '' @ ph @ '', magnesium can help with comfort. Consider taking a supplement'',
           ''Magnesium-rich foods like dark chocolate or nuts could help with symptoms'',
           ''Remember your magnesium supplement to support your body'' @ [CHR 0x27]
             @ ''s needs'']),
       (''nap_suggestion'',
          [''Your energy seems low. A short nap could help during '' @ ph @ '' phase'',
           ''Listen to your body - a 20-minute power nap might be just what you need'',
           ''Rest is important! Consider a short nap to recharge'']),
       (''healthy_snack'',
          [''Time for a '' @ ph @ ''-supporting snack! Focus on ''
             @ get_snack_suggestion cycle_phase,
           ''Nourish your body with a balanced snack'',
           ''Hungry? Choose a nutrient-rich snack to support your energy'']),
       (''movement_break'',
          [''Time to move! During '' @ ph @ '', try '' @ get_movement_type cycle_phase,
           ''A short walk or gentle movement can help with energy and mood'',
           ''Your body needs movement - choose an activity that feels good''])])"

definition generate_notification :: "string \<Rightarrow> string \<Rightarrow> world \<Rightarrow> (error + string) \<times> world" where
  "generate_notification act state_str w =
     (case json_loads state_str of
        None \<Rightarrow> (Inl JSONDecodeError, w)
      | Some state \<Rightarrow>
          let cycle_phase = dict_get state ''cycle_phase'' (JStr []);
              pain_level = dict_get state ''pain_level'' (JInt 5);
              energy_level = dict_get state ''energy_level'' (JInt 5);
              message_list =
                (case map_of (messages cycle_phase) act of
                   Some l \<Rightarrow> l
                 | None \<Rightarrow> [''Time to take care of yourself!''])
          in (case random_choice message_list w of
                (Inl e, w1) \<Rightarrow> (Inl e, w1)
              | (Inr selected_message, w1) \<Rightarrow>
                  (case py_ge pain_level 7 of
                     Inl e \<Rightarrow> (Inl e, w1)
                   | Inr high_pain \<Rightarrow>
                       let selected_message1 =
                             (if high_pain \<and> cycle_phase = JStr ''menstrual''
                              then selected_message @ [CHR 0x0A]
                                   @ ''Remember to be gentle with yourself and listen to your body''
                                   @ [CHR 0x27] @ ''s needs.''
                              else selected_message)
                       in (case py_le energy_level 3 of
                             Inl e \<Rightarrow> (Inl e, w1)
                           | Inr low_energy \<Rightarrow>
                               (Inr (if low_energy
                                     then selected_message1 @ [CHR 0x0A]
                                          @ ''Keep it gentle and rest if needed.''
                                     else selected_message1), w1)))))"

section \<open>API endpoints\<close>

text \<open>
  Each endpoint takes the request, the reading of the clock during the request and the
  world, and returns the response or the exception raised, with the world it leaves.
  The tests \<open>if not state\<close> and \<open>if not next_state\<close> are tests for \<open>None\<close>: the text
  \<open>json.dumps\<close> returns is never empty.
\<close>

definition generate_user_notification ::
  "string \<Rightarrow> datetime \<Rightarrow> world \<Rightarrow> (error + NotificationResponse) \<times> world" where
  "generate_user_notification uid now w =
     (let env = new_environment uid;
          agent = new_agent uid (env_actions env)
      in case get_current_state env now w of
           None \<Rightarrow> (Inl (HTTPException 404 ''No cycle data found for user''), w)
         | Some state \<Rightarrow>
             (case choose_action agent state w of
                (Inl e, w1) \<Rightarrow> (Inl e, w1)
              | (Inr act, w1) \<Rightarrow>
                  (case generate_notification act state w1 of
                     (Inl e, w2) \<Rightarrow> (Inl e, w2)
                   | (Inr msg, w2) \<Rightarrow>
                       let notification =
                             \<lparr> nt_id = next_id (map nt_id (tbl_notifications w2)),
                               nt_user_id = uid, nt_message = msg, nt_timestamp = now,
                               nt_action = act, nt_state = state,
                               nt_action_taken = 0, nt_effectiveness = 0 \<rparr>
                       in (Inr \<lparr> nr_notification_id = nt_id notification, nr_user_id = uid,
                                 nr_message = msg, nr_action = act \<rparr>,
                           w2\<lparr>tbl_notifications := tbl_notifications w2 @ [notification]\<rparr>))))"

text \<open>
  SQLite binds an integer parameter as a signed 64-bit value; for any other Python \<open>int\<close>
  the driver raises \<open>OverflowError\<close>, in a query as in the statements of a commit.
\<close>

definition in_int64 :: "int \<Rightarrow> bool" where
  "in_int64 i = (- (2 ^ 63) \<le> i \<and> i < 2 ^ 63)"

text \<open>
  The division \<open>(energy_improvement + mood_improvement) / 2\<close> of \<open>reward_function\<close> is a
  correctly rounded division of integers and raises \<open>OverflowError\<close> when its result does
  not round to a finite double, that is from \<open>2 ^ 1024 - 2 ^ 970\<close> on. Integers of that
  size are beyond the rating scales; \<open>reward_function\<close> is modelled without the exception
  and the endpoint tests for it where it calls the function.
\<close>

definition reward_function_raises ::
  "MenstrualCycleEnvironment \<Rightarrow> world \<Rightarrow> NotificationFeedback \<Rightarrow> bool" where
  "reward_function_raises env w notification_feedback =
     (if fb_action_taken notification_feedback = 0 then False
      else case latest_cycle_data w (env_user_id env) of
             None \<Rightarrow> False
           | Some prev_data \<Rightarrow>
               2 ^ 1024 - 2 ^ 970
                 \<le> \<bar>real_of_int
                       ((fb_next_day_energy notification_feedback - cd_energy_level prev_data)
                        + (fb_next_day_mood notification_feedback - cd_mood_score prev_data))
                     / 2\<bar>)"

text \<open>
  The feedback endpoint. The assignments to the notification stay pending in the session
  (\<open>autoflush=False\<close>) until the first commit: the commit of the first lazy initialisation
  in \<open>get_q_value\<close> if there is one, else the commit that ends \<open>update_q_value\<close>. A commit
  that binds an integer outside the 64-bit range raises \<open>OverflowError\<close> and is rolled
  back, so what it was to write is lost and what earlier commits wrote stays:
  \<^item> an \<open>action_taken\<close> outside the range fails the first commit, after the sample of
    the first lazy initialisation has been drawn if there is one;
  \<^item> a \<open>next_day_energy\<close> or \<open>next_day_mood\<close> outside the range fails the last commit,
    which writes the history row; the lazy initialisations, and with them the
    assignments to the notification, have been committed if there were any.

  A lazy initialisation has happened exactly when the Q-Value Table has grown.
\<close>

definition process_notification_feedback ::
  "NotificationFeedback \<Rightarrow> datetime \<Rightarrow> world \<Rightarrow> (error + FeedbackResponse) \<times> world" where
  "process_notification_feedback feedback now w =
     (if \<not> in_int64 (fb_notification_id feedback) then (Inl OverflowError, w)
      else
        case find (\<lambda>n. nt_id n = fb_notification_id feedback) (tbl_notifications w) of
          None \<Rightarrow> (Inl (HTTPException 404 ''Notification not found''), w)
        | Some notification \<Rightarrow>
            let w1 = w\<lparr>tbl_notifications :=
                         update_first (\<lambda>n. nt_id n = fb_notification_id feedback)
                           (\<lambda>n. n\<lparr>nt_action_taken := fb_action_taken feedback,
                                   nt_effectiveness := fb_effectiveness feedback\<rparr>)
                           (tbl_notifications w)\<rparr>;
                env = new_environment (nt_user_id notification);
                agent = new_agent (nt_user_id notification) (env_actions env)
            in if reward_function_raises env w1 feedback then (Inl OverflowError, w)
               else
                 let rew = reward_function env w1 feedback;
                     next_state = (case get_current_state env now w1 of
                                     Some s \<Rightarrow> s
                                   | None \<Rightarrow> nt_state notification)
                 in (case get_q_value agent (nt_state notification) (nt_action notification) w of
                       (current_q, wa) \<Rightarrow>
                         (case get_q_values agent next_state (ag_actions agent) wa of
                            (next_qs, wb) \<Rightarrow>
                              let flushed = (length (tbl_q_tables w) < length (tbl_q_tables wb))
                              in if \<not> in_int64 (fb_action_taken feedback)
                                 then (Inl OverflowError,
                                       if flushed then w\<lparr>rng := stl (rng w)\<rparr> else w)
                                 else if in_int64 (fb_next_day_energy feedback)
                                         \<and> in_int64 (fb_next_day_mood feedback)
                                 then
                                   (case update_q_value agent (nt_state notification)
                                           (nt_action notification) rew next_state
                                           (fb_action_taken feedback)
                                           (fb_effectiveness feedback)
                                           (Some (fb_next_day_energy feedback))
                                           (Some (fb_next_day_mood feedback)) now w1 of
                                      (Inl e, w2) \<Rightarrow> (Inl e, w2)
                                    | (Inr u, w2) \<Rightarrow>
                                        (Inr \<lparr> fr_status = ''success'', fr_reward = rew \<rparr>, w2))
                                 else (Inl OverflowError,
                                       if flushed
                                       then wb\<lparr>tbl_notifications := tbl_notifications w1\<rparr>
                                       else w))))"

section \<open>Notions of the specification\<close>

text \<open>
  The time-of-day bucket in the words of the specification: morning from 5 to before 12,
  afternoon from 12 to before 17, evening from 17 to before 22, night otherwise.
\<close>

definition spec_time_bucket :: "nat \<Rightarrow> string" where
  "spec_time_bucket h =
     (if 5 \<le> h \<and> h < 12 then ''morning''
      else if 12 \<le> h \<and> h < 17 then ''afternoon''
      else if 17 \<le> h \<and> h < 22 then ''evening''
      else ''night'')"

text \<open>The State Key of seven field values.\<close>

definition state_key ::
  "string \<Rightarrow> int \<Rightarrow> int \<Rightarrow> int \<Rightarrow> int \<Rightarrow> string \<Rightarrow> int \<Rightarrow> string" where
  "state_key phase sleep mood stress pain bucket energy =
     json_dumps [(''cycle_phase'', JStr phase), (''sleep_score'', JInt sleep),
                 (''mood_score'', JInt mood), (''stress_level'', JInt stress),
                 (''pain_level'', JInt pain), (''time_of_day'', JStr bucket),
                 (''energy_level'', JInt energy)]"

text \<open>The value the Q-Value Table holds for a triple, if it holds one.\<close>

definition q_lookup :: "world \<Rightarrow> string \<Rightarrow> string \<Rightarrow> string \<Rightarrow> real option" where
  "q_lookup w uid state act = map_option qt_q_value (query_q_entry w uid state act)"

text \<open>
  The selection rule in the words of the specification: the arg-max of a score over the
  actions, ties broken in favour of the action that comes first in the enumeration, is the
  first action whose score no other action exceeds. The boost is 0.5 for the two pain
  management actions and 0 for the others.
\<close>

definition spec_first_argmax :: "('a \<Rightarrow> real) \<Rightarrow> 'a list \<Rightarrow> 'a option" where
  "spec_first_argmax score xs = find (\<lambda>x. \<forall>y \<in> set xs. score y \<le> score x) xs"

definition spec_boost :: "string \<Rightarrow> real" where
  "spec_boost a = (if a = ''magnesium_suggestion'' \<or> a = ''stretch_prompt'' then 0.5 else 0)"

text \<open>
  The score the exploit branch compares in a high-pain menstrual state: the stored value,
  with 0.5 added as doubles add for the two pain management actions.
\<close>

definition float_boost :: "string \<Rightarrow> real \<Rightarrow> real" where
  "float_boost a q =
     (if a = ''magnesium_suggestion'' \<or> a = ''stretch_prompt'' then float_add q 0.5 else q)"

section \<open>Example data\<close>

text \<open>
  The observation of the end-to-end scenario, recorded just after midnight, in a database
  without Q-values whose generator returns 0.75 at every call, and the feedback of the
  feedback round trip.
\<close>

definition example_observation :: CycleData where
  "example_observation =
     \<lparr> cd_id = 1, cd_user_id = ''user_1'', cd_timestamp = 1000,
       cd_cycle_phase = ''menstrual'', cd_sleep_score = 6, cd_mood_score = 5,
       cd_stress_level = 7, cd_pain_level = 8, cd_energy_level = 4 \<rparr>"

definition example_world :: world where
  "example_world =
     \<lparr> tbl_cycle_data = [example_observation], tbl_q_tables = [], tbl_q_table_history = [],
       tbl_notifications = [], rng = sconst (sample_of 0.75) \<rparr>"

definition example_feedback :: NotificationFeedback where
  "example_feedback =
     \<lparr> fb_notification_id = 1, fb_action_taken = 1, fb_effectiveness = 8,
       fb_next_day_energy = 7, fb_next_day_mood = 7 \<rparr>"


text \<open>The start of the hour \<open>h\<close> of the first day.\<close>

definition at_hour :: "nat \<Rightarrow> datetime" where
  "at_hour h = h * 3600000000"

text \<open>The state of the scenario on a morning, and a notification proposed in it.\<close>

definition example_state :: string where
  "example_state = state_key ''menstrual'' 6 5 7 8 ''morning'' 4"

definition example_notification :: Notification where
  "example_notification =
     \<lparr> nt_id = 1, nt_user_id = ''user_1'', nt_message = ''Nourish your body with a balanced snack'',
       nt_timestamp = 2000, nt_action = ''healthy_snack'',
       nt_state = state_key ''menstrual'' 6 5 7 8 ''morning'' 4,
       nt_action_taken = 0, nt_effectiveness = 0 \<rparr>"

definition example_world_notified :: world where
  "example_world_notified = example_world\<lparr>tbl_notifications := [example_notification]\<rparr>"

text \<open>
  A second database: another user, two rows, the later one with the field values of the
  example observation.
\<close>

definition other_world :: world where
  "other_world =
     \<lparr> tbl_cycle_data =
         [example_observation\<lparr>cd_id := 4, cd_user_id := ''user_9'', cd_timestamp := 500,
                               cd_cycle_phase := ''luteal'', cd_pain_level := 2\<rparr>,
          example_observation\<lparr>cd_id := 5, cd_user_id := ''user_9'', cd_timestamp := 777777\<rparr>],
       tbl_q_tables = [], tbl_q_table_history = [], tbl_notifications = [],
       rng = sconst (sample_of 0.5) \<rparr>"

text \<open>The agent an endpoint builds for the user of the examples.\<close>

definition example_agent :: MenstrualCycleQLearningAgent where
  "example_agent = new_agent ''user_1'' (env_actions (new_environment ''user_1''))"

text \<open>
  The Q-Value Table of the end-to-end scenario: 0.9 for magnesium, 0.85 for stretch and 0.1
  for the other four actions, in the state of the scenario.
\<close>

definition seeded_row :: "int \<Rightarrow> string \<Rightarrow> real \<Rightarrow> QTable" where
  "seeded_row i a q =
     \<lparr> qt_id = i, qt_user_id = ''user_1'', qt_state = example_state, qt_action = a,
       qt_q_value = q \<rparr>"

definition seeded_world :: world where
  "seeded_world =
     example_world\<lparr>tbl_q_tables :=
       [seeded_row 1 ''stretch_prompt'' 0.85, seeded_row 2 ''mindfulness'' 0.1,
        seeded_row 3 ''magnesium_suggestion'' 0.9, seeded_row 4 ''nap_suggestion'' 0.1,
        seeded_row 5 ''healthy_snack'' 0.1, seeded_row 6 ''movement_break'' 0.1]\<rparr>"

text \<open>
  A Q-Value Table in which the boosted value of magnesium is absorbed by rounding:
  \<open>2 ^ -60 + 0.5\<close> is the double 0.5, the value of mindfulness.
\<close>

definition absorbed_world :: world where
  "absorbed_world =
     example_world\<lparr>tbl_q_tables :=
       [seeded_row 1 ''stretch_prompt'' (- 1), seeded_row 2 ''mindfulness'' 0.5,
        seeded_row 3 ''magnesium_suggestion'' (1 / 2 ^ 60), seeded_row 4 ''nap_suggestion'' 0.1,
        seeded_row 5 ''healthy_snack'' 0.1, seeded_row 6 ''movement_break'' 0.1]\<rparr>"






section \<open>Verified properties\<close>

subsection \<open>Reward\<close>

lemma latest_row_None: "latest_row rs = None \<longleftrightarrow> rs = []"
  by (cases rs) (auto split: option.splits)

text \<open>
  C3: when the action was taken (\<open>action_taken = 1\<close>), the reward is the effectiveness minus 5
  plus half the sum of the energy and mood improvements over the latest observation of the
  user, and the effectiveness minus 5 alone when the user has no observation. The witness
  is the feedback round trip: effectiveness 8, next-day energy 7 and mood 7 after an
  observation with energy 4 and mood 5 give 5.5.
\<close>

theorem reward_action_taken:
  assumes "fb_action_taken fb = 1"
  shows "(\<forall>prev. latest_cycle_data w (env_user_id env) = Some prev \<longrightarrow>
            reward_function env w fb =
              (fb_effectiveness fb - 5)
              + real_of_int ((fb_next_day_energy fb - cd_energy_level prev)
                             + (fb_next_day_mood fb - cd_mood_score prev)) / 2)
       \<and> (latest_cycle_data w (env_user_id env) = None \<longrightarrow>
            reward_function env w fb = fb_effectiveness fb - 5)"
  using assms by (simp add: reward_function_def Let_def)

theorem reward_action_taken_witness:
  "fb_action_taken example_feedback = 1
   \<and> latest_cycle_data example_world (env_user_id (new_environment ''user_1''))
       = Some example_observation
   \<and> cd_energy_level example_observation = 4 \<and> cd_mood_score example_observation = 5
   \<and> reward_function (new_environment ''user_1'') example_world example_feedback = 5.5
   \<and> latest_cycle_data example_world (env_user_id (new_environment ''user_2'')) = None
   \<and> reward_function (new_environment ''user_2'') example_world example_feedback = 3"
proof -
  have a: "fb_action_taken example_feedback = 1"
    by (simp add: example_feedback_def)
  have l1: "latest_cycle_data example_world (env_user_id (new_environment ''user_1''))
              = Some example_observation"
    by (simp add: latest_cycle_data_def example_world_def new_environment_def
        example_observation_def)
  have l2: "latest_cycle_data example_world (env_user_id (new_environment ''user_2'')) = None"
    by (simp add: latest_cycle_data_def example_world_def new_environment_def
        example_observation_def)
  from reward_action_taken [OF a, of example_world "new_environment ''user_1''"] l1
  have r1: "reward_function (new_environment ''user_1'') example_world example_feedback = 5.5"
    by (simp add: example_feedback_def example_observation_def)
  from reward_action_taken [OF a, of example_world "new_environment ''user_2''"] l2
  have r2: "reward_function (new_environment ''user_2'') example_world example_feedback = 3"
    by (simp add: example_feedback_def)
  show ?thesis using a l1 l2 r1 r2 by (simp add: example_observation_def)
qed

text \<open>
  C4: when the action was not taken (\<open>action_taken = 0\<close>), the reward is \<open>-1\<close>, whatever the
  other feedback fields and whether or not the user has an observation.
\<close>

theorem reward_action_not_taken:
  assumes "fb_action_taken fb = 0"
  shows "reward_function env w fb = - 1"
  using assms by (simp add: reward_function_def)

theorem reward_action_not_taken_witness:
  "fb_action_taken (example_feedback\<lparr>fb_action_taken := 0\<rparr>) = 0
   \<and> reward_function (new_environment ''user_1'') example_world
        (example_feedback\<lparr>fb_action_taken := 0\<rparr>) = - 1
   \<and> reward_function (new_environment ''user_2'') example_world
        (example_feedback\<lparr>fb_action_taken := 0, fb_effectiveness := 10\<rparr>) = - 1"
  using reward_action_not_taken [of "example_feedback\<lparr>fb_action_taken := 0\<rparr>"
          "new_environment ''user_1''" example_world]
        reward_action_not_taken [of "example_feedback\<lparr>fb_action_taken := 0, fb_effectiveness := 10\<rparr>"
          "new_environment ''user_2''" example_world]
  by simp

subsection \<open>Error paths of the endpoints\<close>

text \<open>
  C7: feedback whose notification id matches no stored notification fails and leaves the
  world as it found it, so that no Q-value entry, history record or notification row is
  created or changed: with the 404 "Notification not found" when the id fits SQLite's
  64-bit integers, and with the \<open>OverflowError\<close> of the query when it does not.
\<close>

theorem unknown_notification_feedback:
  assumes "\<forall>n \<in> set (tbl_notifications w). nt_id n \<noteq> fb_notification_id feedback"
  shows "(in_int64 (fb_notification_id feedback) \<longrightarrow>
            process_notification_feedback feedback now w
              = (Inl (HTTPException 404 ''Notification not found''), w))
       \<and> (\<not> in_int64 (fb_notification_id feedback) \<longrightarrow>
            process_notification_feedback feedback now w = (Inl OverflowError, w))"
proof -
  have "find (\<lambda>n. nt_id n = fb_notification_id feedback) (tbl_notifications w) = None"
    using assms by (simp add: find_None_iff)
  then show ?thesis
    by (simp add: process_notification_feedback_def)
qed

theorem unknown_notification_feedback_witness:
  "map nt_id (tbl_notifications example_world_notified) = [1]
   \<and> fb_notification_id (example_feedback\<lparr>fb_notification_id := 7\<rparr>) = 7
   \<and> in_int64 7
   \<and> process_notification_feedback (example_feedback\<lparr>fb_notification_id := 7\<rparr>) 3000
        example_world_notified
       = (Inl (HTTPException 404 ''Notification not found''), example_world_notified)
   \<and> fb_notification_id (example_feedback\<lparr>fb_notification_id := - (2 ^ 63) - 1\<rparr>)
       = - (2 ^ 63) - 1
   \<and> \<not> in_int64 (- (2 ^ 63) - 1)
   \<and> process_notification_feedback
        (example_feedback\<lparr>fb_notification_id := - (2 ^ 63) - 1\<rparr>) 3000 example_world_notified
       = (Inl OverflowError, example_world_notified)"
proof -
  have m: "map nt_id (tbl_notifications example_world_notified) = [1]"
    by (simp add: example_world_notified_def example_notification_def)
  have h7: "\<forall>n \<in> set (tbl_notifications example_world_notified).
       nt_id n \<noteq> fb_notification_id (example_feedback\<lparr>fb_notification_id := 7\<rparr>)"
    by (simp add: example_world_notified_def example_notification_def)
  have hn: "\<forall>n \<in> set (tbl_notifications example_world_notified).
       nt_id n \<noteq> fb_notification_id (example_feedback\<lparr>fb_notification_id := - (2 ^ 63) - 1\<rparr>)"
    by (simp add: example_world_notified_def example_notification_def)
  have i7: "in_int64 7" and im: "\<not> in_int64 (- (2 ^ 63) - 1)"
    by (simp_all add: in_int64_def)
  show ?thesis
    using m i7 im unknown_notification_feedback [OF h7, of 3000]
      unknown_notification_feedback [OF hn, of 3000]
    by simp
qed

theorem unknown_notification_feedback_counterexample:
  "map nt_id (tbl_notifications example_world_notified) = [1]
   \<and> fb_notification_id (example_feedback\<lparr>fb_notification_id := 2 ^ 63\<rparr>) = 2 ^ 63
   \<and> process_notification_feedback (example_feedback\<lparr>fb_notification_id := 2 ^ 63\<rparr>) 3000
        example_world_notified
       = (Inl OverflowError, example_world_notified)
   \<and> process_notification_feedback (example_feedback\<lparr>fb_notification_id := 2 ^ 63\<rparr>) 3000
        example_world_notified
       \<noteq> (Inl (HTTPException 404 ''Notification not found''), example_world_notified)"
  by (simp add: process_notification_feedback_def in_int64_def example_world_notified_def
      example_notification_def)

text \<open>
  C8: for a user without any observation the encoder returns no state and the endpoint fails
  with the 404 "No cycle data found for user"; the world is unchanged, so no action was
  selected (no sample drawn, no Q-value initialised) and no notification was stored.
\<close>

theorem no_observation_no_notification:
  assumes "\<forall>r \<in> set (tbl_cycle_data w). cd_user_id r \<noteq> uid"
  shows "get_current_state (new_environment uid) now w = None
       \<and> generate_user_notification uid now w
           = (Inl (HTTPException 404 ''No cycle data found for user''), w)"
proof -
  have "filter (\<lambda>r. cd_user_id r = uid) (tbl_cycle_data w) = []"
    using assms by (simp add: filter_empty_conv)
  then have "latest_cycle_data w uid = None"
    by (simp add: latest_cycle_data_def)
  then have s: "get_current_state (new_environment uid) now w = None"
    by (simp add: get_current_state_def new_environment_def)
  then show ?thesis
    by (simp add: generate_user_notification_def Let_def)
qed

theorem no_observation_no_notification_witness:
  "map cd_user_id (tbl_cycle_data example_world) = [''user_1'']
   \<and> get_current_state (new_environment ''user_2'') 3000 example_world = None
   \<and> generate_user_notification ''user_2'' 3000 example_world
       = (Inl (HTTPException 404 ''No cycle data found for user''), example_world)"
proof -
  have h: "\<forall>r \<in> set (tbl_cycle_data example_world). cd_user_id r \<noteq> ''user_2''"
    by (simp add: example_world_def example_observation_def)
  have m: "map cd_user_id (tbl_cycle_data example_world) = [''user_1'']"
    by (simp add: example_world_def example_observation_def)
  show ?thesis
    using m no_observation_no_notification [OF h, of 3000] by simp
qed

subsection \<open>State encoder\<close>

lemma get_current_state_key:
  assumes "latest_cycle_data w (env_user_id env) = Some obs"
  shows "get_current_state env now w =
           Some (state_key (cd_cycle_phase obs) (cd_sleep_score obs) (cd_mood_score obs)
                   (cd_stress_level obs) (cd_pain_level obs) (spec_time_bucket (hour now))
                   (cd_energy_level obs))"
  using assms by (simp add: get_current_state_def state_key_def spec_time_bucket_def Let_def)

text \<open>
  C6: two encodings agree whenever the latest observations agree on cycle phase, sleep, mood,
  stress, pain and energy and the two query times fall into the same time-of-day bucket,
  whatever the users, row ids, timestamps and the rest of the two databases.
\<close>

theorem state_key_deterministic:
  assumes "latest_cycle_data w1 (env_user_id env1) = Some o1"
    and "latest_cycle_data w2 (env_user_id env2) = Some o2"
    and "cd_cycle_phase o1 = cd_cycle_phase o2"
    and "cd_sleep_score o1 = cd_sleep_score o2"
    and "cd_mood_score o1 = cd_mood_score o2"
    and "cd_stress_level o1 = cd_stress_level o2"
    and "cd_pain_level o1 = cd_pain_level o2"
    and "cd_energy_level o1 = cd_energy_level o2"
    and "spec_time_bucket (hour now1) = spec_time_bucket (hour now2)"
  shows "get_current_state env1 now1 w1 = get_current_state env2 now2 w2"
  using assms by (simp add: get_current_state_key)

theorem state_key_deterministic_witness:
  "latest_cycle_data example_world (env_user_id (new_environment ''user_1''))
     = Some example_observation
   \<and> latest_cycle_data other_world (env_user_id (new_environment ''user_9''))
     = Some (example_observation\<lparr>cd_id := 5, cd_user_id := ''user_9'', cd_timestamp := 777777\<rparr>)
   \<and> spec_time_bucket (hour (at_hour 9)) = spec_time_bucket (hour (at_hour 10 + 1234))
   \<and> get_current_state (new_environment ''user_1'') (at_hour 9) example_world
     = get_current_state (new_environment ''user_9'') (at_hour 10 + 1234) other_world"
proof -
  have l1: "latest_cycle_data example_world (env_user_id (new_environment ''user_1''))
     = Some example_observation"
    by (simp add: latest_cycle_data_def example_world_def new_environment_def
        example_observation_def)
  have l2: "latest_cycle_data other_world (env_user_id (new_environment ''user_9''))
     = Some (example_observation\<lparr>cd_id := 5, cd_user_id := ''user_9'', cd_timestamp := 777777\<rparr>)"
    by (simp add: latest_cycle_data_def other_world_def new_environment_def
        example_observation_def)
  have b: "spec_time_bucket (hour (at_hour 9)) = spec_time_bucket (hour (at_hour 10 + 1234))"
    by (simp add: spec_time_bucket_def hour_def at_hour_def)
  from state_key_deterministic [OF l1 l2 _ _ _ _ _ _ b]
  have "get_current_state (new_environment ''user_1'') (at_hour 9) example_world
     = get_current_state (new_environment ''user_9'') (at_hour 10 + 1234) other_world"
    by simp
  with l1 l2 b show ?thesis by simp
qed

lemma state_key_bucket_inject:
  assumes "state_key p s m st pa b1 e = state_key p s m st pa b2 e"
  shows "json_quote b1 = json_quote b2"
  using assms by (simp add: state_key_def json_dumps_def)

lemma spec_time_bucket_cases:
  "spec_time_bucket h \<in> {''morning'', ''afternoon'', ''evening'', ''night''}"
  by (simp add: spec_time_bucket_def)

lemma bucket_quote_inject:
  assumes "b1 \<in> {''morning'', ''afternoon'', ''evening'', ''night''}"
    and "b2 \<in> {''morning'', ''afternoon'', ''evening'', ''night''}"
    and "json_quote b1 = json_quote b2"
  shows "b1 = b2"
  using assms by (auto simp add: json_quote_def encode_char_def dq_def bs_def)

text \<open>
  C9: the time-of-day bucket of the State Key is the bucket of the hour of the query time
  (morning from 5 to before 12, afternoon from 12 to before 17, evening from 17 to before
  22, night otherwise), whenever the observation was recorded: the key is built from the
  six stored fields and that bucket only, and a query of the same database in another
  bucket yields another key.
\<close>

theorem time_bucket_at_query_time:
  assumes "latest_cycle_data w (env_user_id env) = Some obs"
  shows "get_current_state env now w =
           Some (state_key (cd_cycle_phase obs) (cd_sleep_score obs) (cd_mood_score obs)
                   (cd_stress_level obs) (cd_pain_level obs) (spec_time_bucket (hour now))
                   (cd_energy_level obs))
       \<and> (\<forall>later. spec_time_bucket (hour later) \<noteq> spec_time_bucket (hour now) \<longrightarrow>
             get_current_state env later w \<noteq> get_current_state env now w)"
proof -
  have k: "\<And>t. get_current_state env t w =
           Some (state_key (cd_cycle_phase obs) (cd_sleep_score obs) (cd_mood_score obs)
                   (cd_stress_level obs) (cd_pain_level obs) (spec_time_bucket (hour t))
                   (cd_energy_level obs))"
    using assms by (rule get_current_state_key)
  have "spec_time_bucket (hour later) = spec_time_bucket (hour now)"
    if "get_current_state env later w = get_current_state env now w" for later
  proof -
    from that have "state_key (cd_cycle_phase obs) (cd_sleep_score obs) (cd_mood_score obs)
                   (cd_stress_level obs) (cd_pain_level obs) (spec_time_bucket (hour later))
                   (cd_energy_level obs)
          = state_key (cd_cycle_phase obs) (cd_sleep_score obs) (cd_mood_score obs)
                   (cd_stress_level obs) (cd_pain_level obs) (spec_time_bucket (hour now))
                   (cd_energy_level obs)"
      by (simp only: k option.inject)
    then have "json_quote (spec_time_bucket (hour later))
                      = json_quote (spec_time_bucket (hour now))"
      by (rule state_key_bucket_inject)
    then show ?thesis
      by (rule bucket_quote_inject [OF spec_time_bucket_cases spec_time_bucket_cases])
  qed
  then show ?thesis using k by blast
qed

theorem time_bucket_at_query_time_witness:
  "latest_cycle_data example_world (env_user_id (new_environment ''user_1''))
     = Some example_observation
   \<and> hour (cd_timestamp example_observation) = 0
   \<and> get_current_state (new_environment ''user_1'') (at_hour 9) example_world
       = Some (state_key ''menstrual'' 6 5 7 8 ''morning'' 4)
   \<and> spec_time_bucket (hour (at_hour 13)) \<noteq> spec_time_bucket (hour (at_hour 9))
   \<and> get_current_state (new_environment ''user_1'') (at_hour 13) example_world
       \<noteq> get_current_state (new_environment ''user_1'') (at_hour 9) example_world"
proof -
  have l1: "latest_cycle_data example_world (env_user_id (new_environment ''user_1''))
     = Some example_observation"
    by (simp add: latest_cycle_data_def example_world_def new_environment_def
        example_observation_def)
  have h0: "hour (cd_timestamp example_observation) = 0"
    by (simp add: hour_def example_observation_def)
  have b: "spec_time_bucket (hour (at_hour 13)) \<noteq> spec_time_bucket (hour (at_hour 9))"
    by (simp add: spec_time_bucket_def hour_def at_hour_def)
  have m: "spec_time_bucket (hour (at_hour 9)) = ''morning''"
    by (simp add: spec_time_bucket_def hour_def at_hour_def)
  note t = time_bucket_at_query_time [OF l1, of "at_hour 9"]
  from t m have k: "get_current_state (new_environment ''user_1'') (at_hour 9) example_world
       = Some (state_key ''menstrual'' 6 5 7 8 ''morning'' 4)"
    by (simp add: example_observation_def)
  from t b have d: "get_current_state (new_environment ''user_1'') (at_hour 13) example_world
       \<noteq> get_current_state (new_environment ''user_1'') (at_hour 9) example_world"
    by blast
  from l1 h0 k b d show ?thesis by blast
qed

subsection \<open>Q-Value Table\<close>

lemma find_snoc:
  "find P (xs @ [y]) = (case find P xs of Some x \<Rightarrow> Some x | None \<Rightarrow> if P y then Some y else None)"
  by (induction xs) auto

lemma sample_value_range: "0 \<le> sample_value u \<and> sample_value u < 1"
  using sample_value [of u] by simp

lemma q_lookup_add_q_entry:
  "q_lookup (add_q_entry uid state act q w) uid' state' act' =
     (case q_lookup w uid' state' act' of
        Some x \<Rightarrow> Some x
      | None \<Rightarrow> if uid = uid' \<and> state = state' \<and> act = act' then Some q else None)"
  by (auto simp add: q_lookup_def query_q_entry_def add_q_entry_def find_snoc q_filter_def
      split: option.splits)

lemma q_lookup_rng [simp]: "q_lookup (w\<lparr>rng := g\<rparr>) uid state act = q_lookup w uid state act"
  by (simp add: q_lookup_def query_q_entry_def)

lemma get_q_value_hit:
  assumes "q_lookup w (ag_user_id ag) state act = Some v"
  shows "get_q_value ag state act w = (v, w)"
  using assms by (auto simp add: get_q_value_def q_lookup_def)

lemma get_q_value_miss:
  assumes "q_lookup w (ag_user_id ag) state act = None"
  shows "get_q_value ag state act w =
           (- 0.1 + 0.2 * sample_value (shd (rng w)),
            add_q_entry (ag_user_id ag) state act (- 0.1 + 0.2 * sample_value (shd (rng w)))
              (w\<lparr>rng := stl (rng w)\<rparr>))"
  using assms
  by (simp add: get_q_value_def q_lookup_def random_uniform_def random_random_def)

lemma get_q_value_stored:
  assumes "get_q_value ag state act w = (v, w')"
  shows "q_lookup w' (ag_user_id ag) state act = Some v"
proof (cases "q_lookup w (ag_user_id ag) state act")
  case None
  from get_q_value_miss [OF None] assms None show ?thesis
    by (auto simp add: q_lookup_add_q_entry)
next
  case (Some x)
  from get_q_value_hit [OF Some] assms Some show ?thesis by simp
qed

lemma get_q_value_keeps:
  assumes "get_q_value ag state act w = (v, w')"
    and "q_lookup w uid' state' act' = Some x"
  shows "q_lookup w' uid' state' act' = Some x"
proof (cases "q_lookup w (ag_user_id ag) state act")
  case None
  from get_q_value_miss [OF None] assms show ?thesis
    by (auto simp add: q_lookup_add_q_entry)
next
  case (Some y)
  from get_q_value_hit [OF Some] assms show ?thesis by simp
qed

lemma get_q_value_frame:
  assumes "get_q_value ag state act w = (v, w')"
  shows "tbl_cycle_data w' = tbl_cycle_data w \<and> tbl_notifications w' = tbl_notifications w
       \<and> tbl_q_table_history w' = tbl_q_table_history w"
proof (cases "q_lookup w (ag_user_id ag) state act")
  case None
  from get_q_value_miss [OF None] assms show ?thesis
    by (auto simp add: add_q_entry_def)
next
  case (Some y)
  from get_q_value_hit [OF Some] assms show ?thesis by simp
qed

text \<open>
  C2: the first read of a triple without an entry returns a value between \<open>-0.1\<close> and
  \<open>0.1\<close> and stores it; a second read straight after returns the same value and changes
  nothing (no further sample is drawn).
\<close>

theorem lazy_init_stable:
  assumes "q_lookup w (ag_user_id ag) state act = None"
  shows "\<exists>v w'. get_q_value ag state act w = (v, w')
           \<and> - 0.1 \<le> v \<and> v \<le> 0.1
           \<and> q_lookup w' (ag_user_id ag) state act = Some v
           \<and> get_q_value ag state act w' = (v, w')"
proof -
  obtain v w' where g: "get_q_value ag state act w = (v, w')"
    by (cases "get_q_value ag state act w")
  have s: "q_lookup w' (ag_user_id ag) state act = Some v"
    using g by (rule get_q_value_stored)
  have v: "v = - 0.1 + 0.2 * sample_value (shd (rng w))"
    using get_q_value_miss [OF assms] g by simp
  have "- 0.1 \<le> v \<and> v \<le> 0.1"
    using sample_value_range [of "shd (rng w)"] by (simp add: v)
  with g s get_q_value_hit [OF s] show ?thesis by blast
qed

theorem lazy_init_stable_witness:
  "q_lookup example_world (ag_user_id (new_agent ''user_1'' [])) ''s'' ''mindfulness'' = None
   \<and> fst (get_q_value (new_agent ''user_1'' []) ''s'' ''mindfulness'' example_world) = 0.05
   \<and> fst (get_q_value (new_agent ''user_1'' []) ''s'' ''mindfulness''
            (snd (get_q_value (new_agent ''user_1'' []) ''s'' ''mindfulness'' example_world)))
       = 0.05"
proof -
  have n: "q_lookup example_world (ag_user_id (new_agent ''user_1'' [])) ''s'' ''mindfulness''
             = None"
    by (simp add: q_lookup_def query_q_entry_def example_world_def)
  have f: "fst (get_q_value (new_agent ''user_1'' []) ''s'' ''mindfulness'' example_world)
             = 0.05"
    by (simp add: get_q_value_def query_q_entry_def example_world_def random_uniform_def
        random_random_def sample_of.rep_eq)
  from lazy_init_stable [OF n] f n show ?thesis by auto
qed


lemma get_q_values_keeps:
  assumes "get_q_values ag state acts w = (qs, w')"
    and "q_lookup w uid' state' act' = Some x"
  shows "q_lookup w' uid' state' act' = Some x"
  using assms
proof (induction acts arbitrary: w qs)
  case Nil
  then show ?case by simp
next
  case (Cons a rest)
  obtain q w1 where g: "get_q_value ag state a w = (q, w1)"
    by (cases "get_q_value ag state a w")
  obtain qs1 w2 where r0: "get_q_values ag state rest w1 = (qs1, w2)"
    by (cases "get_q_values ag state rest w1")
  from Cons.prems(1) g r0 have e: "w' = w2" by simp
  from r0 e have r: "get_q_values ag state rest w1 = (qs1, w')" by simp
  have "q_lookup w1 uid' state' act' = Some x"
    using g Cons.prems(2) by (rule get_q_value_keeps)
  with Cons.IH [OF r] e show ?case by simp
qed

lemma get_q_values_frame:
  assumes "get_q_values ag state acts w = (qs, w')"
  shows "tbl_cycle_data w' = tbl_cycle_data w \<and> tbl_notifications w' = tbl_notifications w
       \<and> tbl_q_table_history w' = tbl_q_table_history w"
  using assms
proof (induction acts arbitrary: w qs)
  case Nil
  then show ?case by simp
next
  case (Cons a rest)
  obtain q w1 where g: "get_q_value ag state a w = (q, w1)"
    by (cases "get_q_value ag state a w")
  obtain qs1 w2 where r0: "get_q_values ag state rest w1 = (qs1, w2)"
    by (cases "get_q_values ag state rest w1")
  from Cons.prems(1) g r0 have e: "w' = w2" by simp
  from r0 e have r: "get_q_values ag state rest w1 = (qs1, w')" by simp
  from get_q_value_frame [OF g] Cons.IH [OF r] e show ?case by simp
qed

lemma get_q_values_stored:
  assumes "get_q_values ag state acts w = (qs, w')"
  shows "map Some qs = map (q_lookup w' (ag_user_id ag) state) acts"
  using assms
proof (induction acts arbitrary: w qs)
  case Nil
  then show ?case by simp
next
  case (Cons a rest)
  obtain q w1 where g: "get_q_value ag state a w = (q, w1)"
    by (cases "get_q_value ag state a w")
  obtain qs1 w2 where r0: "get_q_values ag state rest w1 = (qs1, w2)"
    by (cases "get_q_values ag state rest w1")
  from Cons.prems g r0 have e: "w' = w2" "qs = q # qs1" by simp_all
  from r0 e have r: "get_q_values ag state rest w1 = (qs1, w')" by simp
  have "q_lookup w1 (ag_user_id ag) state a = Some q"
    using g by (rule get_q_value_stored)
  then have "q_lookup w' (ag_user_id ag) state a = Some q"
    by (rule get_q_values_keeps [OF r])
  with Cons.IH [OF r] e show ?case by simp
qed

lemma find_Some_holds: "find P xs = Some x \<Longrightarrow> P x"
  by (auto simp add: find_Some_iff)

lemma find_update_first:
  assumes "\<And>x. Q (f x) = Q x"
  shows "find Q (update_first P f xs) =
           (case find Q xs of
              None \<Rightarrow> None
            | Some x \<Rightarrow> if find P xs = Some x then Some (f x) else Some x)"
proof (induction xs)
  case Nil
  then show ?case by simp
next
  case (Cons x xs)
  then show ?case
    by (auto simp add: assms split: option.splits dest: find_Some_holds)
qed

lemma q_lookup_update_first:
  "q_lookup (w\<lparr>tbl_q_tables :=
               update_first (q_filter uid state act) (\<lambda>r. r\<lparr>qt_q_value := v\<rparr>)
                 (tbl_q_tables w)\<rparr>) uid' state' act' =
     (if uid' = uid \<and> state' = state \<and> act' = act
      then map_option (\<lambda>_. v) (q_lookup w uid state act)
      else q_lookup w uid' state' act')"
proof -
  have k: "\<And>x. q_filter uid' state' act' (x\<lparr>qt_q_value := v\<rparr>) = q_filter uid' state' act' x"
    by (simp add: q_filter_def)
  have d: "find (q_filter uid state act) (tbl_q_tables w) \<noteq> Some x"
    if "find (q_filter uid' state' act') (tbl_q_tables w) = Some x"
      and "\<not> (uid' = uid \<and> state' = state \<and> act' = act)" for x
  proof
    assume "find (q_filter uid state act) (tbl_q_tables w) = Some x"
    then have "q_filter uid state act x" by (auto simp add: find_Some_iff)
    moreover from that(1) have "q_filter uid' state' act' x" by (auto simp add: find_Some_iff)
    ultimately show False using that(2) by (auto simp add: q_filter_def)
  qed
  show ?thesis
    by (auto simp add: q_lookup_def query_q_entry_def find_update_first [where Q = "q_filter uid' state' act'", OF k]
        split: option.splits dest: d)
qed

subsection \<open>Learning update\<close>

lemma fold_max_Max: "fold max qs (q::real) = Max (set (q # qs))"
  by (simp only: Max.set_eq_fold)

lemma update_q_value_unfold:
  assumes g: "get_q_value ag state act w = (q_sa, w1)"
    and r: "get_q_values ag next_state (ag_actions ag) w1 = (q # qs, w2)"
  shows "\<exists>w3. update_q_value ag state act rew next_state action_taken effectiveness
                 next_day_energy next_day_mood now w = (Inr (), w3)
           \<and> q_lookup w2 (ag_user_id ag) state act = Some q_sa
           \<and> q_lookup w3 (ag_user_id ag) state act
               = Some (q_sa + ag_alpha ag * (rew + ag_gamma ag * Max (set (q # qs)) - q_sa))
           \<and> (\<forall>uid' state' act'.
                 \<not> (uid' = ag_user_id ag \<and> state' = state \<and> act' = act) \<longrightarrow>
                 q_lookup w3 uid' state' act' = q_lookup w2 uid' state' act')
           \<and> tbl_cycle_data w3 = tbl_cycle_data w \<and> tbl_notifications w3 = tbl_notifications w
           \<and> rng w3 = rng w2
           \<and> tbl_q_table_history w3 = tbl_q_table_history w @
                [\<lparr> qh_id = next_id (map qh_id (tbl_q_table_history w)),
                   qh_user_id = ag_user_id ag, qh_state = state, qh_action = act,
                   qh_q_value = q_sa + ag_alpha ag * (rew + ag_gamma ag * Max (set (q # qs)) - q_sa),
                   qh_timestamp = now, qh_action_taken = action_taken, qh_reward = rew,
                   qh_next_day_energy = next_day_energy, qh_next_day_mood = next_day_mood \<rparr>]"
proof -
  define new_q where "new_q = q_sa + ag_alpha ag * (rew + ag_gamma ag * Max (set (q # qs)) - q_sa)"
  have s1: "q_lookup w1 (ag_user_id ag) state act = Some q_sa"
    using g by (rule get_q_value_stored)
  have s2: "q_lookup w2 (ag_user_id ag) state act = Some q_sa"
    using r s1 by (rule get_q_values_keeps)
  then obtain row where row: "query_q_entry w2 (ag_user_id ag) state act = Some row"
    by (auto simp add: q_lookup_def)
  define w3 where "w3 = w2\<lparr>tbl_q_tables :=
      update_first (q_filter (ag_user_id ag) state act) (\<lambda>r. r\<lparr>qt_q_value := new_q\<rparr>)
        (tbl_q_tables w2)\<rparr>"
  have f: "tbl_cycle_data w2 = tbl_cycle_data w \<and> tbl_notifications w2 = tbl_notifications w
       \<and> tbl_q_table_history w2 = tbl_q_table_history w"
    using get_q_value_frame [OF g] get_q_values_frame [OF r] by simp
  have u: "update_q_value ag state act rew next_state action_taken effectiveness
                 next_day_energy next_day_mood now w =
           (Inr (), w3\<lparr>tbl_q_table_history := tbl_q_table_history w3 @
                [\<lparr> qh_id = next_id (map qh_id (tbl_q_table_history w3)),
                   qh_user_id = ag_user_id ag, qh_state = state, qh_action = act,
                   qh_q_value = new_q,
                   qh_timestamp = now, qh_action_taken = action_taken, qh_reward = rew,
                   qh_next_day_energy = next_day_energy, qh_next_day_mood = next_day_mood \<rparr>]\<rparr>)"
    by (simp add: update_q_value_def g r row Let_def w3_def new_q_def fold_max_Max
        del: Max_insert set_simps)
  have l: "\<And>uid' state' act'. q_lookup (w3\<lparr>tbl_q_table_history := h\<rparr>) uid' state' act'
             = q_lookup w3 uid' state' act'" for h
    by (simp add: q_lookup_def query_q_entry_def)
  have q3: "\<And>uid' state' act'. q_lookup w3 uid' state' act' =
     (if uid' = ag_user_id ag \<and> state' = state \<and> act' = act
      then map_option (\<lambda>_. new_q) (q_lookup w2 (ag_user_id ag) state act)
      else q_lookup w2 uid' state' act')"
    unfolding w3_def by (rule q_lookup_update_first)
  have f3: "tbl_cycle_data w3 = tbl_cycle_data w \<and> tbl_notifications w3 = tbl_notifications w
       \<and> tbl_q_table_history w3 = tbl_q_table_history w \<and> rng w3 = rng w2"
    using f by (simp add: w3_def)
  show ?thesis
    unfolding u new_q_def [symmetric]
    using s2 f3 by (simp add: l q3)
qed

text \<open>
  C1: with \<open>Q\<close> the table as it stands once the reads of the update have initialised every
  unseen triple (entries present before keep their values), the update stores for
  \<open>(state, act)\<close> exactly \<open>Q(s,a) + \<alpha> (r + \<gamma> max Q(s',a') - Q(s,a))\<close>, the maximum taken
  over the six actions, each of which has an entry for the next state afterwards; a new
  agent has \<open>\<alpha> = 0.1\<close> and \<open>\<gamma> = 0.9\<close>.
\<close>

theorem q_learning_update:
  assumes acts: "ag_actions ag = env_actions (new_environment (ag_user_id ag))"
    and g: "get_q_value ag state act w = (q_sa, w1)"
    and r: "get_q_values ag next_state (ag_actions ag) w1 = (next_qs, w2)"
  shows "\<exists>Q w3.
           update_q_value ag state act rew next_state action_taken effectiveness
             next_day_energy next_day_mood now w = (Inr (), w3)
         \<and> (\<forall>uid' s a x. q_lookup w uid' s a = Some x \<longrightarrow> q_lookup w2 uid' s a = Some x)
         \<and> q_lookup w2 (ag_user_id ag) state act = Some q_sa
         \<and> length (ag_actions ag) = 6
         \<and> (\<forall>a' \<in> set (ag_actions ag). q_lookup w2 (ag_user_id ag) next_state a' = Some (Q a'))
         \<and> q_lookup w3 (ag_user_id ag) state act
             = Some (q_sa + ag_alpha ag
                      * (rew + ag_gamma ag * Max (Q ` set (ag_actions ag)) - q_sa))
         \<and> (\<forall>a' \<in> set (ag_actions ag). q_lookup w3 (ag_user_id ag) next_state a' \<noteq> None)
         \<and> ag_alpha (new_agent uid actions) = 0.1 \<and> ag_gamma (new_agent uid actions) = 0.9"
proof -
  define Q where "Q = (\<lambda>a'. the (q_lookup w2 (ag_user_id ag) next_state a'))"
  have len: "length (ag_actions ag) = 6"
    by (simp add: acts new_environment_def)
  have st: "map Some next_qs = map (q_lookup w2 (ag_user_id ag) next_state) (ag_actions ag)"
    using r by (rule get_q_values_stored)
  have all: "\<forall>a' \<in> set (ag_actions ag). q_lookup w2 (ag_user_id ag) next_state a' = Some (Q a')"
  proof
    fix a' assume "a' \<in> set (ag_actions ag)"
    then have "q_lookup w2 (ag_user_id ag) next_state a'
                 \<in> set (map (q_lookup w2 (ag_user_id ag) next_state) (ag_actions ag))"
      by simp
    then have "q_lookup w2 (ag_user_id ag) next_state a' \<in> set (map Some next_qs)"
      by (simp only: st)
    then show "q_lookup w2 (ag_user_id ag) next_state a' = Some (Q a')"
      by (auto simp add: Q_def)
  qed
  have "map Some next_qs = map (\<lambda>a'. Some (Q a')) (ag_actions ag)"
    using all by (simp add: st)
  then have "map the (map Some next_qs) = map the (map (\<lambda>a'. Some (Q a')) (ag_actions ag))"
    by (rule arg_cong)
  then have qs: "next_qs = map Q (ag_actions ag)"
    by (simp add: comp_def)
  from qs len obtain q qs' where c: "next_qs = q # qs'"
    by (cases next_qs) auto
  have m: "Max (set (q # qs')) = Max (Q ` set (ag_actions ag))"
    using c qs by (simp only: set_map [symmetric])
  from update_q_value_unfold [OF g r [unfolded c], of rew action_taken effectiveness
      next_day_energy next_day_mood now]
  obtain w3 where u: "update_q_value ag state act rew next_state action_taken effectiveness
             next_day_energy next_day_mood now w = (Inr (), w3)"
    and s2: "q_lookup w2 (ag_user_id ag) state act = Some q_sa"
    and s3: "q_lookup w3 (ag_user_id ag) state act
               = Some (q_sa + ag_alpha ag * (rew + ag_gamma ag * Max (set (q # qs')) - q_sa))"
    and o3: "\<forall>uid' state' act'.
                 \<not> (uid' = ag_user_id ag \<and> state' = state \<and> act' = act) \<longrightarrow>
                 q_lookup w3 uid' state' act' = q_lookup w2 uid' state' act'"
    by blast
  have keep: "\<forall>uid' s a x. q_lookup w uid' s a = Some x \<longrightarrow> q_lookup w2 uid' s a = Some x"
    using get_q_value_keeps [OF g] get_q_values_keeps [OF r] by blast
  have ini: "\<forall>a' \<in> set (ag_actions ag). q_lookup w3 (ag_user_id ag) next_state a' \<noteq> None"
  proof
    fix a' assume a: "a' \<in> set (ag_actions ag)"
    show "q_lookup w3 (ag_user_id ag) next_state a' \<noteq> None"
    proof (cases "next_state = state \<and> a' = act")
      case True
      then show ?thesis using s3 by simp
    next
      case False
      then have "q_lookup w3 (ag_user_id ag) next_state a'
                   = q_lookup w2 (ag_user_id ag) next_state a'"
        using o3 by blast
      then show ?thesis using all a by simp
    qed
  qed
  have d: "ag_alpha (new_agent uid actions) = 0.1 \<and> ag_gamma (new_agent uid actions) = 0.9"
    by (simp add: new_agent_def)
  from u keep s2 len all s3 [unfolded m] ini d show ?thesis by blast
qed

theorem q_learning_update_witness:
  "ag_actions example_agent = env_actions (new_environment (ag_user_id example_agent))
   \<and> (\<exists>w3. update_q_value example_agent example_state ''healthy_snack'' 5.5 example_state
               1 8 (Some 7) (Some 7) (at_hour 9) example_world = (Inr (), w3)
            \<and> q_lookup w3 ''user_1'' example_state ''healthy_snack'' = Some 0.5995
            \<and> (\<forall>a' \<in> set (ag_actions example_agent).
                  q_lookup w3 (ag_user_id example_agent) example_state a' \<noteq> None))"
proof -
  have a: "ag_actions example_agent = env_actions (new_environment (ag_user_id example_agent))"
    by (simp add: example_agent_def new_agent_def new_environment_def)
  obtain q_sa w1 where g: "get_q_value example_agent example_state ''healthy_snack''
                             example_world = (q_sa, w1)"
    by (cases "get_q_value example_agent example_state ''healthy_snack'' example_world")
  obtain next_qs w2 where r: "get_q_values example_agent example_state
                                (ag_actions example_agent) w1 = (next_qs, w2)"
    by (cases "get_q_values example_agent example_state (ag_actions example_agent) w1")
  from q_learning_update [OF a g r, where rew = "5.5" and action_taken = 1
      and effectiveness = 8 and next_day_energy = "Some 7" and next_day_mood = "Some 7"
      and now = "at_hour 9"]
  obtain w3 where u: "update_q_value example_agent example_state ''healthy_snack'' 5.5
               example_state 1 8 (Some 7) (Some 7) (at_hour 9) example_world = (Inr (), w3)"
    and i: "\<forall>a' \<in> set (ag_actions example_agent).
                  q_lookup w3 (ag_user_id example_agent) example_state a' \<noteq> None"
    by blast
  have "q_lookup (snd (update_q_value example_agent example_state ''healthy_snack'' 5.5
               example_state 1 8 (Some 7) (Some 7) (at_hour 9) example_world))
          ''user_1'' example_state ''healthy_snack'' = Some 0.5995"
    by (simp add: update_q_value_def get_q_value_def example_agent_def new_agent_def
        new_environment_def query_q_entry_def example_world_def random_uniform_def
        random_random_def sample_of.rep_eq add_q_entry_def next_id_def q_filter_def
        q_lookup_def Let_def)
  then have v: "q_lookup w3 ''user_1'' example_state ''healthy_snack'' = Some 0.5995"
    by (simp only: u snd_conv)
  from a u v i show ?thesis by blast
qed

subsection \<open>Policy\<close>

lemma spec_first_argmax_snoc:
  assumes "spec_first_argmax score pre = Some b"
  shows "spec_first_argmax score (pre @ [x]) = Some (if score b < score x then x else b)"
proof -
  from assms have bmax: "\<forall>y \<in> set pre. score y \<le> score b"
    unfolding spec_first_argmax_def by (auto dest: find_Some_holds)
  from assms have bin: "b \<in> set pre"
    unfolding spec_first_argmax_def by (auto simp add: find_Some_iff)
  show ?thesis
  proof (cases "score b < score x")
    case True
    have "find (\<lambda>z. \<forall>y \<in> set (pre @ [x]). score y \<le> score z) pre = None"
      using bmax True by (fastforce simp add: find_None_iff)
    moreover have "\<forall>y \<in> set (pre @ [x]). score y \<le> score x"
      using bmax True by fastforce
    ultimately show ?thesis
      using True by (simp add: spec_first_argmax_def find_snoc)
  next
    case False
    have "find (\<lambda>z. \<forall>y \<in> set (pre @ [x]). score y \<le> score z) pre
            = find (\<lambda>z. \<forall>y \<in> set pre. score y \<le> score z) pre"
    proof (rule find_cong [OF refl])
      fix z assume "z \<in> set pre"
      show "(\<forall>y \<in> set (pre @ [x]). score y \<le> score z) = (\<forall>y \<in> set pre. score y \<le> score z)"
        using False bin by fastforce
    qed
    then show ?thesis
      using False assms by (simp add: spec_first_argmax_def find_snoc)
  qed
qed

lemma max_by_key_first_argmax:
  assumes "spec_first_argmax score pre = Some b"
  shows "spec_first_argmax score (pre @ xs) = Some (max_by_key score b xs)"
  using assms
proof (induction xs arbitrary: pre b)
  case Nil
  then show ?case by simp
next
  case (Cons x xs)
  from spec_first_argmax_snoc [OF Cons.prems, of x]
  have "spec_first_argmax score ((pre @ [x]) @ xs)
          = Some (max_by_key score (if score b < score x then x else b) xs)"
    by (rule Cons.IH)
  then show ?case by simp
qed

lemma py_max_key_first_argmax:
  assumes "xs \<noteq> []"
  shows "\<exists>m. py_max_key score xs = Inr m \<and> spec_first_argmax score xs = Some m"
proof -
  from assms obtain x rest where c: "xs = x # rest" by (cases xs) auto
  have "spec_first_argmax score [x] = Some x"
    by (simp add: spec_first_argmax_def)
  from max_by_key_first_argmax [OF this, of rest] c show ?thesis
    by (simp add: py_max_key_def)
qed

lemma max_by_key_pairs:
  "max_by_key snd (b, f b) (map (\<lambda>a. (a, f a)) xs) =
     (max_by_key f b xs, f (max_by_key f b xs))"
  by (induction xs arbitrary: b) auto

lemma get_q_values_table:
  assumes "get_q_values ag state acts w = (qs, w')"
  shows "\<exists>Q. (\<forall>b \<in> set acts. q_lookup w' (ag_user_id ag) state b = Some (Q b))
            \<and> qs = map Q acts"
proof -
  define Q where "Q = (\<lambda>b. the (q_lookup w' (ag_user_id ag) state b))"
  have st: "map Some qs = map (q_lookup w' (ag_user_id ag) state) acts"
    using assms by (rule get_q_values_stored)
  have all: "\<forall>b \<in> set acts. q_lookup w' (ag_user_id ag) state b = Some (Q b)"
  proof
    fix b assume "b \<in> set acts"
    then have "q_lookup w' (ag_user_id ag) state b
                 \<in> set (map (q_lookup w' (ag_user_id ag) state) acts)"
      by simp
    then have "q_lookup w' (ag_user_id ag) state b \<in> set (map Some qs)"
      by (simp only: st)
    then show "q_lookup w' (ag_user_id ag) state b = Some (Q b)"
      by (auto simp add: Q_def)
  qed
  have "map Some qs = map (\<lambda>b. Some (Q b)) acts"
    using all by (simp add: st)
  then have "map the (map Some qs) = map the (map (\<lambda>b. Some (Q b)) acts)"
    by (rule arg_cong)
  then have "qs = map Q acts"
    by (simp add: comp_def)
  with all show ?thesis by blast
qed

lemma example_state_loads:
  "json_loads example_state =
     Some [(''cycle_phase'', JStr ''menstrual''), (''sleep_score'', JInt 6),
           (''mood_score'', JInt 5), (''stress_level'', JInt 7), (''pain_level'', JInt 8),
           (''time_of_day'', JStr ''morning''), (''energy_level'', JInt 4)]"
  by code_simp

lemma boosted_q_values_get_q_values:
  "boosted_q_values ag state acts w =
     (case get_q_values ag state acts w of
        (qs, w') \<Rightarrow> (map (\<lambda>(a, q). (a, float_boost a q)) (zip acts qs), w'))"
  by (induction acts arbitrary: w) (auto simp add: float_boost_def Let_def split: prod.splits)

lemmas double_eval = float_add_def double_round_def double_exponent_def round_half_even_def
  exponent_up.simps exponent_down.simps Let_def

lemma float_add_examples:
  "float_add (9 / 10) (1 / 2) = 6305039478318694 / 2 ^ 52"
  "float_add (17 / 20) (1 / 2) = 6079859496950170 / 2 ^ 52"
  "float_add (- 1) (1 / 2) = - (1 / 2)"
  "float_add (1 / 1152921504606846976) (1 / 2) = 1 / 2"
  by (simp_all add: double_eval)


text \<open>
  C5: on the exploit branch (the exploration sample is not below \<open>\<epsilon>\<close>), for a state that
  decodes to cycle phase "menstrual" and a pain level of at least 6, the action returned is
  the arg-max over the six actions of the score the code computes, the first in
  enumeration order among equals: \<open>Q(state, a)\<close> for four of the actions and, for magnesium
  and stretch, the double nearest to \<open>Q(state, a) + 0.5\<close>. \<open>Q\<close> is the table after the
  reads, which agrees with the table before them wherever that had an entry. In the
  scenario with 0.9 for magnesium, 0.85 for stretch and 0.1 for the others, magnesium is
  selected. With the sums taken exactly the statement fails: rounding can turn a greater
  sum into an equal score, and an earlier action then wins.
\<close>

theorem exploit_boosted_argmax:
  assumes decoded: "json_loads state = Some state_dict"
    and phase: "dict_get state_dict ''cycle_phase'' JNull = JStr ''menstrual''"
    and pain: "dict_get state_dict ''pain_level'' (JInt 5) = JInt p"
    and high: "6 \<le> p"
    and exploit: "\<not> sample_value (shd (rng w)) < ag_epsilon ag"
    and acts: "ag_actions ag = env_actions (new_environment (ag_user_id ag))"
  shows "\<exists>a w' Q.
           choose_action ag state w = (Inr a, w')
         \<and> (\<forall>uid' s b x. q_lookup w uid' s b = Some x \<longrightarrow> q_lookup w' uid' s b = Some x)
         \<and> (\<forall>b \<in> set (ag_actions ag). q_lookup w' (ag_user_id ag) state b = Some (Q b))
         \<and> spec_first_argmax (\<lambda>b. float_boost b (Q b)) (ag_actions ag) = Some a"
proof -
  define w1 where "w1 = w\<lparr>rng := stl (rng w)\<rparr>"
  obtain qs w' where g: "get_q_values ag state (ag_actions ag) w1 = (qs, w')"
    by (cases "get_q_values ag state (ag_actions ag) w1")
  from get_q_values_table [OF g] obtain Q
    where all: "\<forall>b \<in> set (ag_actions ag). q_lookup w' (ag_user_id ag) state b = Some (Q b)"
      and qs: "qs = map Q (ag_actions ag)"
    by blast
  define pairs where "pairs = map (\<lambda>b. (b, float_boost b (Q b))) (ag_actions ag)"
  have bq: "boosted_q_values ag state (ag_actions ag) w1 = (pairs, w')"
    by (simp add: boosted_q_values_get_q_values g qs pairs_def zip_map2 zip_same_conv_map
        comp_def)
  have ne: "ag_actions ag \<noteq> []"
    by (simp add: acts new_environment_def)
  from py_max_key_first_argmax [OF ne, of "\<lambda>b. float_boost b (Q b)"] obtain a
    where m: "py_max_key (\<lambda>b. float_boost b (Q b)) (ag_actions ag) = Inr a"
      and fa: "spec_first_argmax (\<lambda>b. float_boost b (Q b)) (ag_actions ag) = Some a"
    by blast
  from ne obtain x rest where c: "ag_actions ag = x # rest"
    by (cases "ag_actions ag") auto
  have pm: "py_max_key snd pairs = Inr (a, float_boost a (Q a))"
    using m max_by_key_pairs [where f = "\<lambda>b. float_boost b (Q b)" and b = x and xs = rest]
    by (simp add: py_max_key_def pairs_def c)
  have hp: "high_pain_menstrual (JStr ''menstrual'') (JInt p) = Inr True"
    using high by (simp add: high_pain_menstrual_def py_ge_def)
  have ch: "choose_action ag state w = (Inr a, w')"
    using exploit
    by (simp add: choose_action_def decoded phase pain hp random_random_def Let_def
        w1_def [symmetric] bq pm)
  have keep: "\<forall>uid' s b x. q_lookup w uid' s b = Some x \<longrightarrow> q_lookup w' uid' s b = Some x"
  proof (intro allI impI)
    fix uid' s b x assume "q_lookup w uid' s b = Some x"
    then have "q_lookup w1 uid' s b = Some x" by (simp add: w1_def)
    with g show "q_lookup w' uid' s b = Some x" by (rule get_q_values_keeps)
  qed
  from ch keep all fa show ?thesis by blast
qed

theorem exploit_boosted_argmax_witness:
  "get_current_state (new_environment ''user_1'') (at_hour 9) seeded_world = Some example_state
   \<and> json_loads example_state =
       Some [(''cycle_phase'', JStr ''menstrual''), (''sleep_score'', JInt 6),
             (''mood_score'', JInt 5), (''stress_level'', JInt 7), (''pain_level'', JInt 8),
             (''time_of_day'', JStr ''morning''), (''energy_level'', JInt 4)]
   \<and> \<not> sample_value (shd (rng seeded_world)) < ag_epsilon example_agent
   \<and> q_lookup seeded_world ''user_1'' example_state ''magnesium_suggestion'' = Some 0.9
   \<and> q_lookup seeded_world ''user_1'' example_state ''stretch_prompt'' = Some 0.85
   \<and> fst (choose_action example_agent example_state seeded_world) = Inr ''magnesium_suggestion''
   \<and> (\<exists>Q. (\<forall>b \<in> set (ag_actions example_agent).
              q_lookup seeded_world ''user_1'' example_state b = Some (Q b))
         \<and> spec_first_argmax (\<lambda>b. float_boost b (Q b)) (ag_actions example_agent)
             = Some ''magnesium_suggestion'')"
proof -
  have k: "get_current_state (new_environment ''user_1'') (at_hour 9) seeded_world
             = Some example_state"
    by (simp add: get_current_state_def latest_cycle_data_def new_environment_def
        seeded_world_def example_world_def example_observation_def example_state_def
        state_key_def hour_def at_hour_def Let_def)
  have d: "json_loads example_state =
       Some [(''cycle_phase'', JStr ''menstrual''), (''sleep_score'', JInt 6),
             (''mood_score'', JInt 5), (''stress_level'', JInt 7), (''pain_level'', JInt 8),
             (''time_of_day'', JStr ''morning''), (''energy_level'', JInt 4)]"
    by (rule example_state_loads)
  have ph: "dict_get [(''cycle_phase'', JStr ''menstrual''), (''sleep_score'', JInt 6),
             (''mood_score'', JInt 5), (''stress_level'', JInt 7), (''pain_level'', JInt 8),
             (''time_of_day'', JStr ''morning''), (''energy_level'', JInt 4)]
             ''cycle_phase'' JNull = JStr ''menstrual''"
    by (simp add: dict_get_def)
  have pa: "dict_get [(''cycle_phase'', JStr ''menstrual''), (''sleep_score'', JInt 6),
             (''mood_score'', JInt 5), (''stress_level'', JInt 7), (''pain_level'', JInt 8),
             (''time_of_day'', JStr ''morning''), (''energy_level'', JInt 4)]
             ''pain_level'' (JInt 5) = JInt 8"
    by (simp add: dict_get_def)
  have hi: "(6::int) \<le> 8" by simp
  have ex: "\<not> sample_value (shd (rng seeded_world)) < ag_epsilon example_agent"
    by (simp add: seeded_world_def example_world_def example_agent_def new_agent_def
        sample_of.rep_eq)
  have ac: "ag_actions example_agent = env_actions (new_environment (ag_user_id example_agent))"
    by (simp add: example_agent_def new_agent_def new_environment_def)
  have tbl: "q_lookup seeded_world ''user_1'' example_state b =
               (if b = ''stretch_prompt'' then Some 0.85
                else if b = ''magnesium_suggestion'' then Some 0.9
                else if b \<in> {''mindfulness'', ''nap_suggestion'', ''healthy_snack'',
                              ''movement_break''} then Some 0.1
                else None)" for b
    by (simp add: q_lookup_def query_q_entry_def seeded_world_def seeded_row_def q_filter_def)
  from exploit_boosted_argmax [OF d ph pa hi ex ac]
  obtain a w' Q where ch: "choose_action example_agent example_state seeded_world = (Inr a, w')"
    and keep: "\<forall>uid' s b x. q_lookup seeded_world uid' s b = Some x \<longrightarrow>
                 q_lookup w' uid' s b = Some x"
    and all: "\<forall>b \<in> set (ag_actions example_agent).
                 q_lookup w' (ag_user_id example_agent) example_state b = Some (Q b)"
    and fa: "spec_first_argmax (\<lambda>b. float_boost b (Q b)) (ag_actions example_agent) = Some a"
    by blast
  have uid: "ag_user_id example_agent = ''user_1''"
    by (simp add: example_agent_def new_agent_def)
  have as: "ag_actions example_agent =
              [''stretch_prompt'', ''mindfulness'', ''magnesium_suggestion'',
               ''nap_suggestion'', ''healthy_snack'', ''movement_break'']"
    by (simp add: example_agent_def new_agent_def new_environment_def)
  have Qb: "Q b = v"
    if "q_lookup seeded_world ''user_1'' example_state b = Some v"
      and "b \<in> set (ag_actions example_agent)" for b v
  proof -
    from keep that(1) have "q_lookup w' ''user_1'' example_state b = Some v" by blast
    moreover from all that(2) have "q_lookup w' ''user_1'' example_state b = Some (Q b)"
      by (simp only: uid)
    ultimately show ?thesis by simp
  qed
  have q1: "Q ''stretch_prompt'' = 17 / 20" by (rule Qb) (simp_all add: tbl as)
  have q2: "Q ''mindfulness'' = 1 / 10" by (rule Qb) (simp_all add: tbl as)
  have q3: "Q ''magnesium_suggestion'' = 9 / 10" by (rule Qb) (simp_all add: tbl as)
  have q4: "Q ''nap_suggestion'' = 1 / 10" by (rule Qb) (simp_all add: tbl as)
  have q5: "Q ''healthy_snack'' = 1 / 10" by (rule Qb) (simp_all add: tbl as)
  have q6: "Q ''movement_break'' = 1 / 10" by (rule Qb) (simp_all add: tbl as)
  have "a = ''magnesium_suggestion''"
    using fa
    by (simp add: as spec_first_argmax_def float_boost_def q1 q2 q3 q4 q5 q6
        float_add_examples)
  then have c1: "fst (choose_action example_agent example_state seeded_world)
                    = Inr ''magnesium_suggestion''"
    and c2: "spec_first_argmax (\<lambda>b. float_boost b (Q b)) (ag_actions example_agent)
               = Some ''magnesium_suggestion''"
    using ch fa by simp_all
  have c3: "\<forall>b \<in> set (ag_actions example_agent).
              q_lookup seeded_world ''user_1'' example_state b = Some (Q b)"
    by (simp add: as tbl q1 q2 q3 q4 q5 q6)
  have t1: "q_lookup seeded_world ''user_1'' example_state ''magnesium_suggestion'' = Some 0.9"
    and t2: "q_lookup seeded_world ''user_1'' example_state ''stretch_prompt'' = Some 0.85"
    by (simp_all add: tbl)
  from k d ex t1 t2 c1 c2 c3 show ?thesis by blast
qed

theorem exploit_real_argmax_counterexample:
  "json_loads example_state =
       Some [(''cycle_phase'', JStr ''menstrual''), (''sleep_score'', JInt 6),
             (''mood_score'', JInt 5), (''stress_level'', JInt 7), (''pain_level'', JInt 8),
             (''time_of_day'', JStr ''morning''), (''energy_level'', JInt 4)]
   \<and> \<not> sample_value (shd (rng absorbed_world)) < ag_epsilon example_agent
   \<and> map (q_lookup absorbed_world ''user_1'' example_state) (ag_actions example_agent)
       = [Some (- 1), Some 0.5, Some (1 / 2 ^ 60), Some 0.1, Some 0.1, Some 0.1]
   \<and> fst (choose_action example_agent example_state absorbed_world) = Inr ''mindfulness''
   \<and> spec_first_argmax
        (\<lambda>b. the (q_lookup absorbed_world ''user_1'' example_state b) + spec_boost b)
        (ag_actions example_agent) = Some ''magnesium_suggestion''"
proof -
  have d: "json_loads example_state =
       Some [(''cycle_phase'', JStr ''menstrual''), (''sleep_score'', JInt 6),
             (''mood_score'', JInt 5), (''stress_level'', JInt 7), (''pain_level'', JInt 8),
             (''time_of_day'', JStr ''morning''), (''energy_level'', JInt 4)]"
    by (rule example_state_loads)
  have ex: "\<not> sample_value (shd (rng absorbed_world)) < ag_epsilon example_agent"
    by (simp add: absorbed_world_def example_world_def example_agent_def new_agent_def
        sample_of.rep_eq)
  have as: "ag_actions example_agent =
              [''stretch_prompt'', ''mindfulness'', ''magnesium_suggestion'',
               ''nap_suggestion'', ''healthy_snack'', ''movement_break'']"
    by (simp add: example_agent_def new_agent_def new_environment_def)
  have tbl: "map (q_lookup absorbed_world ''user_1'' example_state) (ag_actions example_agent)
       = [Some (- 1), Some 0.5, Some (1 / 2 ^ 60), Some 0.1, Some 0.1, Some 0.1]"
    by (simp add: as q_lookup_def query_q_entry_def absorbed_world_def seeded_row_def
        q_filter_def)
  have ch: "fst (choose_action example_agent example_state absorbed_world)
              = Inr ''mindfulness''"
    by (simp add: choose_action_def d dict_get_def high_pain_menstrual_def py_ge_def
        random_random_def get_q_value_def query_q_entry_def q_filter_def py_max_key_def
        absorbed_world_def example_world_def seeded_row_def example_agent_def new_agent_def
        new_environment_def sample_of.rep_eq float_add_examples Let_def)
  have am: "spec_first_argmax
        (\<lambda>b. the (q_lookup absorbed_world ''user_1'' example_state b) + spec_boost b)
        (ag_actions example_agent) = Some ''magnesium_suggestion''"
    using tbl by (simp add: as spec_first_argmax_def spec_boost_def)
  from d ex tbl ch am show ?thesis by blast
qed

subsection \<open>Feedback endpoint\<close>



lemma q_lookup_notifications [simp]:
  "q_lookup (w\<lparr>tbl_notifications := ns\<rparr>) uid state act = q_lookup w uid state act"
  by (simp add: q_lookup_def query_q_entry_def)














end
